theory Spec2Isabelle
  imports Complex_Main "HOL-Library.Log_Nat"
begin

section \<open>JavaScript numbers\<close>

text \<open>
  A JavaScript Number is an IEEE 754 double. The finite non-zero doubles are rationals,
  so a number is modelled as one of the special values or \<open>Fin r\<close> with \<open>r\<close> rational;
  \<open>Fin 0\<close> is \<open>+0\<close> and \<open>NZero\<close> is \<open>-0\<close>. Every arithmetic operation computes the exact
  rational result and rounds it to the nearest double, ties to even, with gradual
  underflow below \<open>2^-1022\<close> and overflow to infinity from \<open>2^1024\<close>.
\<close>

datatype jsnum = NaN | PInf | NInf | NZero | Fin rat

fun is_nan :: "jsnum \<Rightarrow> bool" where
  "is_nan NaN = True"
| "is_nan _ = False"

fun is_inf :: "jsnum \<Rightarrow> bool" where
  "is_inf PInf = True"
| "is_inf NInf = True"
| "is_inf _ = False"

fun is_zero :: "jsnum \<Rightarrow> bool" where
  "is_zero NZero = True"
| "is_zero (Fin r) = (r = 0)"
| "is_zero _ = False"

fun is_neg :: "jsnum \<Rightarrow> bool" where
  "is_neg NInf = True"
| "is_neg NZero = True"
| "is_neg (Fin r) = (r < 0)"
| "is_neg _ = False"

fun finite_number :: "jsnum \<Rightarrow> bool" where
  "finite_number NZero = True"
| "finite_number (Fin r) = True"
| "finite_number _ = False"

text \<open>The value of a finite number (both zeros are 0).\<close>

fun val :: "jsnum \<Rightarrow> rat" where
  "val (Fin r) = r"
| "val _ = 0"

definition signed_zero :: "bool \<Rightarrow> jsnum" where
  "signed_zero neg = (if neg then NZero else Fin 0)"

definition signed_inf :: "bool \<Rightarrow> jsnum" where
  "signed_inf neg = (if neg then NInf else PInf)"

text \<open>\<open>ilog2 a\<close> is the binary exponent of a positive rational: \<open>2^e \<le> a < 2^(e+1)\<close>.\<close>

definition ilog2 :: "rat \<Rightarrow> int" where
  "ilog2 a =
     (let (p, q) = quotient_of a;
          d = int (floorlog 2 (nat p)) - int (floorlog 2 (nat q))
      in if 2 powi d \<le> a then d else d - 1)"

definition round_half_even :: "rat \<Rightarrow> int" where
  "round_half_even t =
     (let f = \<lfloor>t\<rfloor>; r = t - of_int f
      in if r < 1 / 2 then f
         else if 1 / 2 < r then f + 1
         else if even f then f else f + 1)"

text \<open>
  \<open>fl neg a\<close> rounds the magnitude \<open>a \<ge> 0\<close> with sign \<open>neg\<close> to a double: 53 significant
  bits, the least exponent of the last bit being \<open>-1074\<close>.
\<close>

definition fl :: "bool \<Rightarrow> rat \<Rightarrow> jsnum" where
  "fl neg a =
     (if a = 0 then signed_zero neg
      else
        let e = max (ilog2 a - 52) (- 1074);
            m = round_half_even (a / 2 powi e);
            y = of_int m * 2 powi e
        in if 2 ^ 1024 \<le> y then signed_inf neg
           else if m = 0 then signed_zero neg
           else Fin (if neg then - y else y))"

text \<open>The operator \<open>*\<close> on numbers.\<close>

definition jsmul :: "jsnum \<Rightarrow> jsnum \<Rightarrow> jsnum" where
  "jsmul a b =
     (if is_nan a \<or> is_nan b then NaN
      else
        let s = (is_neg a \<noteq> is_neg b)
        in if is_inf a \<or> is_inf b then (if is_zero a \<or> is_zero b then NaN else signed_inf s)
           else fl s (\<bar>val a\<bar> * \<bar>val b\<bar>))"

text \<open>The operator \<open>/\<close> on numbers.\<close>

definition jsdiv :: "jsnum \<Rightarrow> jsnum \<Rightarrow> jsnum" where
  "jsdiv a b =
     (if is_nan a \<or> is_nan b then NaN
      else
        let s = (is_neg a \<noteq> is_neg b)
        in if is_inf a then (if is_inf b then NaN else signed_inf s)
           else if is_inf b then signed_zero s
           else if is_zero b then (if is_zero a then NaN else signed_inf s)
           else fl s (\<bar>val a\<bar> / \<bar>val b\<bar>))"

text \<open>The operator \<open>>\<close> on numbers: false when either side is NaN.\<close>

definition jsgt :: "jsnum \<Rightarrow> jsnum \<Rightarrow> bool" where
  "jsgt a b =
     (if is_nan a \<or> is_nan b then False
      else if a = PInf then b \<noteq> PInf
      else if b = NInf then a \<noteq> NInf
      else if a = NInf \<or> b = PInf then False
      else val b < val a)"

text \<open>Equality of numbers under \<open>===\<close>: NaN equals nothing, the two zeros are equal.\<close>

definition num_eq :: "jsnum \<Rightarrow> jsnum \<Rightarrow> bool" where
  "num_eq a b = (\<not> is_nan a \<and> \<not> is_nan b \<and> (a = b \<or> (is_zero a \<and> is_zero b)))"


section \<open>JavaScript values\<close>

text \<open>
  The values the program handles: what \<open>JSON.parse\<close> returns (null, booleans, numbers,
  strings, arrays, objects) and \<open>undefined\<close>, the value of a missing property. An object
  is the list of its properties, each name once.
\<close>

datatype jsval =
    JUndefined
  | JNull
  | JBool bool
  | JNum jsnum
  | JString string
  | JArray "jsval list"
  | JObject "(string \<times> jsval) list"

datatype error = SyntaxError | TypeError | IndexSizeError

text \<open>
  The property read \<open>v.k\<close>. Reading a property of \<open>undefined\<close> or \<open>null\<close> raises a
  TypeError. The names the program reads (\<open>type\<close>, \<open>data\<close>, \<open>message\<close>, \<open>canvas_width\<close>,
  \<open>canvas_height\<close>, \<open>paddle1\<close>, \<open>paddle2\<close>, \<open>ball\<close>, \<open>score1\<close>, \<open>score2\<close>, \<open>x\<close>, \<open>y\<close>,
  \<open>width\<close>, \<open>height\<close>, \<open>radius\<close>) are properties of no built-in prototype, so on a
  boolean, number, string or array they read as \<open>undefined\<close>.
\<close>

definition property :: "(string \<times> jsval) list \<Rightarrow> string \<Rightarrow> jsval" where
  "property fs k = (case map_of fs k of None \<Rightarrow> JUndefined | Some v \<Rightarrow> v)"

fun get :: "jsval \<Rightarrow> string \<Rightarrow> error + jsval" where
  "get JUndefined k = Inl TypeError"
| "get JNull k = Inl TypeError"
| "get (JObject fs) k = Inr (property fs k)"
| "get _ k = Inr JUndefined"

text \<open>Truthiness, as tested by \<open>if\<close>, \<open>!\<close> and \<open>&&\<close>.\<close>

fun truthy :: "jsval \<Rightarrow> bool" where
  "truthy JUndefined = False"
| "truthy JNull = False"
| "truthy (JBool b) = b"
| "truthy (JNum n) = (\<not> is_nan n \<and> \<not> is_zero n)"
| "truthy (JString s) = (s \<noteq> [])"
| "truthy (JArray _) = True"
| "truthy (JObject _) = True"

text \<open>
  Strict equality \<open>===\<close>. The program compares a value only with a string literal or
  with a number of the canvas, so two arrays or two objects (equal when they are the
  same object) are never compared.
\<close>

fun strict_eq :: "jsval \<Rightarrow> jsval \<Rightarrow> bool" where
  "strict_eq JUndefined JUndefined = True"
| "strict_eq JNull JNull = True"
| "strict_eq (JBool a) (JBool b) = (a = b)"
| "strict_eq (JNum a) (JNum b) = num_eq a b"
| "strict_eq (JString a) (JString b) = (a = b)"
| "strict_eq _ _ = False"

text \<open>\<open>String.prototype.toLowerCase\<close> on the ASCII letters.\<close>

definition lower_char :: "char \<Rightarrow> char" where
  "lower_char c =
     (case map_of (zip ''ABCDEFGHIJKLMNOPQRSTUVWXYZ'' ''abcdefghijklmnopqrstuvwxyz'') c of
        None \<Rightarrow> c
      | Some l \<Rightarrow> l)"

definition toLowerCase :: "string \<Rightarrow> string" where
  "toLowerCase s = map lower_char s"

section \<open>The page and the runtime\<close>

text \<open>
  What the program reads from its surroundings: the box of the canvas's parent element
  (the canvas of the page has one), and the conversions of the runtime. \<open>ObjectToNumber\<close>
  and \<open>ObjectToString\<close> are the conversions to a number and to a string of a string, an
  array or an object (they can raise: an object whose \<open>toString\<close> property is not a
  function has no primitive value); \<open>NumberToString\<close> is the text of a number;
  \<open>set_width v\<close> and \<open>set_height v\<close> are the numbers \<open>canvas.width\<close> and \<open>canvas.height\<close>
  hold after the value \<open>v\<close> is assigned to them (the setters convert the value to an
  unsigned integer, and raise when it has no number).
\<close>

record env =
  clientWidth :: jsnum
  clientHeight :: jsnum
  ObjectToNumber :: "jsval \<Rightarrow> error + jsnum"
  ObjectToString :: "jsval \<Rightarrow> error + string"
  NumberToString :: "jsnum \<Rightarrow> string"
  set_width :: "jsval \<Rightarrow> error + jsnum"
  set_height :: "jsval \<Rightarrow> error + jsnum"

definition ToNumber :: "env \<Rightarrow> jsval \<Rightarrow> error + jsnum" where
  "ToNumber e v =
     (case v of
        JUndefined \<Rightarrow> Inr NaN
      | JNull \<Rightarrow> Inr (Fin 0)
      | JBool b \<Rightarrow> Inr (Fin (if b then 1 else 0))
      | JNum n \<Rightarrow> Inr n
      | _ \<Rightarrow> ObjectToNumber e v)"

definition ToString :: "env \<Rightarrow> jsval \<Rightarrow> error + string" where
  "ToString e v =
     (case v of
        JUndefined \<Rightarrow> Inr ''undefined''
      | JNull \<Rightarrow> Inr ''null''
      | JBool b \<Rightarrow> Inr (if b then ''true'' else ''false'')
      | JNum n \<Rightarrow> Inr (NumberToString e n)
      | JString s \<Rightarrow> Inr s
      | _ \<Rightarrow> ObjectToString e v)"

text \<open>The operator \<open>/\<close> on values: both operands are converted, the left one first.\<close>

definition divide_values :: "env \<Rightarrow> jsval \<Rightarrow> jsval \<Rightarrow> error + jsnum" where
  "divide_values e a b =
     (case ToNumber e a of
        Inl err \<Rightarrow> Inl err
      | Inr x \<Rightarrow> (case ToNumber e b of Inl err \<Rightarrow> Inl err | Inr y \<Rightarrow> Inr (jsdiv x y)))"

section \<open>config.js\<close>

definition CANVAS_WIDTH :: rat where "CANVAS_WIDTH = 800"
definition CANVAS_HEIGHT :: rat where "CANVAS_HEIGHT = 600"

definition PADDLE_COLOR :: string where "PADDLE_COLOR = ''#FFFFFF''"
definition BALL_COLOR :: string where "BALL_COLOR = ''#FFFFFF''"
definition COLORS_BACKGROUND :: string where "COLORS_BACKGROUND = ''#000000''"
definition COLORS_TEXT :: string where "COLORS_TEXT = ''#FFFFFF''"
definition COLORS_BOUNDARY :: string where "COLORS_BOUNDARY = ''#444444''"

record controls =
  UP :: string
  DOWN :: string
  LEFT :: string
  RIGHT :: string

definition PLAYER1 :: controls where
  "PLAYER1 = \<lparr>UP = ''w'', DOWN = ''s'', LEFT = ''a'', RIGHT = ''d''\<rparr>"

definition PLAYER2 :: controls where
  "PLAYER2 = \<lparr>UP = ''ArrowUp'', DOWN = ''ArrowDown'', LEFT = ''ArrowLeft'', RIGHT = ''ArrowRight''\<rparr>"

definition WEBSOCKET_URL :: string where
  "WEBSOCKET_URL = ''ws://localhost:8000/api/v1/game/ws''"


section \<open>game.js: the state of a PongGame\<close>

text \<open>
  An outbound frame is the text \<open>ws.send\<close> is given: \<open>JSON.stringify({type: 'reset'})\<close>
  or \<open>JSON.stringify({type: 'input', action: action})\<close>. The socket keeps the frames
  sent on it, oldest first.
\<close>

datatype frame = ResetFrame | InputFrame string

record websocket =
  url :: string
  outbox :: "frame list"

text \<open>One entry for each call of \<open>console.log\<close> or \<open>console.error\<close>, with the values it prints.\<close>

datatype console_entry =
    LogText string
  | LogValue jsval
  | LogInitialDimensions jsnum jsnum
  | LogDimensionsUpdated jsnum jsnum
  | LogGameWorld jsval jsval
  | LogDisplaySize jsnum jsnum
  | LogScaleFactor jsnum
  | LogSocketError

text \<open>
  The fields of the object, with the parts of the page it writes: \<open>canvas_width\<close> and
  \<open>canvas_height\<close> are \<open>canvas.width\<close> and \<open>canvas.height\<close> (the internal resolution);
  \<open>style_width\<close> and \<open>style_height\<close> are the texts last assigned to \<open>canvas.style.width\<close>
  and \<open>canvas.style.height\<close>, \<open>Some d\<close> being the number \<open>d\<close> followed by \<open>px\<close> (a browser
  keeps the former value when the text is no length); \<open>statusElement\<close> is the
  text of the element \<open>connectionStatus\<close>, \<open>None\<close> when the page has no such element;
  \<open>connected_flag\<close> is the field \<open>connected\<close>.
\<close>

record game =
  playerId :: string
  canvas_width :: jsnum
  canvas_height :: jsnum
  style_width :: "jsnum option"
  style_height :: "jsnum option"
  scaleX :: jsnum
  scaleY :: jsnum
  initialDimensionsSet :: bool
  ws :: "websocket option"
  gameState :: jsval
  connected_flag :: bool
  pressedKeys :: "string set"
  console :: "console_entry list"
  statusElement :: "string option"

text \<open>
  A handler ends either normally, with the new state (\<open>Inr\<close>), or by an uncaught
  exception (\<open>Inl\<close>), with the state as the assignments before the exception left it.
\<close>

type_synonym outcome = "error \<times> game + game"

definition eval_in :: "game \<Rightarrow> error + 'a \<Rightarrow> ('a \<Rightarrow> outcome) \<Rightarrow> outcome" where
  "eval_in st r k = (case r of Inl e \<Rightarrow> Inl (e, st) | Inr v \<Rightarrow> k v)"

text \<open>The exception a handler ended by, if any, and the state it left.\<close>

definition raised :: "outcome \<Rightarrow> error option" where
  "raised r = (case r of Inl (e, st) \<Rightarrow> Some e | Inr st \<Rightarrow> None)"

definition final_state :: "outcome \<Rightarrow> game" where
  "final_state r = (case r of Inl (e, st) \<Rightarrow> st | Inr st \<Rightarrow> st)"

definition console_log :: "console_entry \<Rightarrow> game \<Rightarrow> game" where
  "console_log entry st = st\<lparr>console := console st @ [entry]\<rparr>"

text \<open>
  The constructor; \<open>status\<close> is the text of the page's status element, if it has one. The
  canvas holds the two numbers of \<open>config.js\<close> as they are.
\<close>

definition PongGame :: "string \<Rightarrow> string option \<Rightarrow> game" where
  "PongGame pid status =
     \<lparr>playerId = pid,
      canvas_width = Fin CANVAS_WIDTH,
      canvas_height = Fin CANVAS_HEIGHT,
      style_width = None,
      style_height = None,
      scaleX = Fin 1,
      scaleY = Fin 1,
      initialDimensionsSet = False,
      ws = None,
      gameState = JNull,
      connected_flag = False,
      pressedKeys = {},
      console = [],
      statusElement = status\<rparr>"

definition updateConnectionStatus :: "string \<Rightarrow> game \<Rightarrow> game" where
  "updateConnectionStatus status st =
     (case statusElement st of
        None \<Rightarrow> st
      | Some _ \<Rightarrow> st\<lparr>statusElement := Some (''Status: '' @ status)\<rparr>)"

subsection \<open>handleResize\<close>

text \<open>
  The display box is assigned to \<open>canvas.style\<close> before the scale factors are computed.
  The four calls of \<open>console.log\<close> at the end format values that have been converted
  before, and raise nothing.
\<close>

definition handleResize :: "env \<Rightarrow> game \<Rightarrow> outcome" where
  "handleResize e st =
     (if \<not> truthy (gameState st) \<or> \<not> initialDimensionsSet st then Inr st
      else
        let containerWidth = clientWidth e;
            containerHeight = clientHeight e
        in
        eval_in st (get (gameState st) ''canvas_width'') (\<lambda>cw.
        eval_in st (get (gameState st) ''canvas_height'') (\<lambda>ch.
        eval_in st (divide_values e cw ch) (\<lambda>gameAspectRatio.
          let containerAspectRatio = jsdiv containerWidth containerHeight;
              (displayWidth, displayHeight) =
                (if jsgt containerAspectRatio gameAspectRatio
                 then (jsmul containerHeight gameAspectRatio, containerHeight)
                 else (containerWidth, jsdiv containerWidth gameAspectRatio));
              st1 = st\<lparr>style_width := Some displayWidth, style_height := Some displayHeight\<rparr>
          in
          eval_in st1 (divide_values e (JNum displayWidth) cw) (\<lambda>sx.
            let st2 = st1\<lparr>scaleX := sx\<rparr> in
            eval_in st2 (divide_values e (JNum displayHeight) ch) (\<lambda>sy.
              let st3 = st2\<lparr>scaleY := sy\<rparr> in
              Inr (console_log (LogScaleFactor sx)
                    (console_log (LogDisplaySize displayWidth displayHeight)
                      (console_log (LogGameWorld cw ch)
                        (console_log (LogText ''Responsive scaling applied:'') st3))))))))))"

subsection \<open>connectWebSocket and the handlers of the socket\<close>

definition connectWebSocket :: "game \<Rightarrow> game" where
  "connectWebSocket st =
     (let wsUrl = WEBSOCKET_URL @ ''/'' @ playerId st
      in (console_log (LogText (''Connecting to: '' @ wsUrl)) st)\<lparr>ws := Some \<lparr>url = wsUrl, outbox = []\<rparr>\<rparr>)"

definition onopen :: "game \<Rightarrow> game" where
  "onopen st =
     updateConnectionStatus ''Connected''
       ((console_log (LogText ''Connected to server!'') st)\<lparr>connected_flag := True\<rparr>)"

text \<open>
  The branch of \<open>onmessage\<close> for a \<open>game_state\<close> message, after \<open>this.gameState\<close> has been
  assigned: \<open>st\<close> is the state with the new \<open>gameState\<close>.
\<close>

definition sync_dimensions :: "env \<Rightarrow> game \<Rightarrow> outcome" where
  "sync_dimensions e st =
     eval_in st (get (gameState st) ''canvas_width'') (\<lambda>cw.
       if \<not> truthy cw then Inr st
       else
         eval_in st (get (gameState st) ''canvas_height'') (\<lambda>ch.
           if \<not> truthy ch then Inr st
           else if \<not> initialDimensionsSet st
                   \<or> \<not> strict_eq (JNum (canvas_width st)) cw
                   \<or> \<not> strict_eq (JNum (canvas_height st)) ch
           then
             eval_in st (set_width e cw) (\<lambda>w.
               let st1 = st\<lparr>canvas_width := w\<rparr> in
               eval_in st1 (set_height e ch) (\<lambda>h.
                 let st2 = st1\<lparr>canvas_height := h\<rparr>;
                     st3 = (if \<not> initialDimensionsSet st2
                            then (console_log (LogInitialDimensions w h) st2)\<lparr>initialDimensionsSet := True\<rparr>
                            else console_log (LogDimensionsUpdated w h) st2)
                 in handleResize e st3))
           else Inr st))"

text \<open>
  \<open>onmessage\<close>: \<open>parsed\<close> is what \<open>JSON.parse(event.data)\<close> gives, \<open>None\<close> when it raises
  its SyntaxError. Nothing in the handler catches an exception.
\<close>

definition onmessage :: "env \<Rightarrow> jsval option \<Rightarrow> game \<Rightarrow> outcome" where
  "onmessage e parsed st =
     (case parsed of
        None \<Rightarrow> Inl (SyntaxError, st)
      | Some message \<Rightarrow>
          eval_in st (get message ''type'') (\<lambda>ty.
            if strict_eq ty (JString ''game_state'') then
              eval_in st (get message ''data'') (\<lambda>d.
                sync_dimensions e (st\<lparr>gameState := d\<rparr>))
            else if strict_eq ty (JString ''connected'') then
              eval_in st (get message ''message'') (\<lambda>m. Inr (console_log (LogValue m) st))
            else if strict_eq ty (JString ''player_disconnected'') then
              eval_in st (get message ''message'') (\<lambda>m.
                Inr (updateConnectionStatus ''Waiting for other player...'' (console_log (LogValue m) st)))
            else Inr st))"

definition onclose :: "game \<Rightarrow> game" where
  "onclose st =
     updateConnectionStatus ''Disconnected''
       ((console_log (LogText ''Disconnected from server'') st)\<lparr>connected_flag := False\<rparr>)"

definition onerror :: "game \<Rightarrow> game" where
  "onerror st = updateConnectionStatus ''Connection error'' (console_log LogSocketError st)"

subsection \<open>init\<close>

text \<open>
  \<open>init\<close> opens the socket and writes the status text. Of its other calls,
  \<open>setupKeyboardControls\<close>, \<open>setupResetButton\<close> and \<open>startRenderLoop\<close> register the handlers
  and the loops modelled below, and \<open>setupResponsiveCanvas\<close> calls \<open>handleResize\<close>, which
  returns at its guard since no snapshot is stored yet.
\<close>

definition init :: "game \<Rightarrow> game" where
  "init st = updateConnectionStatus ''Connecting...'' (connectWebSocket st)"

subsection \<open>Outbound messages\<close>

text \<open>\<open>this.ws.send(f)\<close> on the socket \<open>w\<close>.\<close>

definition send :: "frame \<Rightarrow> websocket \<Rightarrow> websocket" where
  "send f w = w\<lparr>outbox := outbox w @ [f]\<rparr>"

definition resetGame :: "game \<Rightarrow> game" where
  "resetGame st =
     (case ws st of
        None \<Rightarrow> st
      | Some w \<Rightarrow> if connected_flag st then st\<lparr>ws := Some (send ResetFrame w)\<rparr> else st)"

definition sendInput :: "string \<Rightarrow> game \<Rightarrow> game" where
  "sendInput action st =
     (case ws st of
        None \<Rightarrow> st
      | Some w \<Rightarrow> if connected_flag st then st\<lparr>ws := Some (send (InputFrame action) w)\<rparr> else st)"

text \<open>The frames sent so far.\<close>

definition sent :: "game \<Rightarrow> frame list" where
  "sent st = (case ws st of None \<Rightarrow> [] | Some w \<Rightarrow> outbox w)"

subsection \<open>setupKeyboardControls\<close>

definition keydown :: "string \<Rightarrow> game \<Rightarrow> game" where
  "keydown key st = st\<lparr>pressedKeys := insert (toLowerCase key) (pressedKeys st)\<rparr>"

definition keyup :: "string \<Rightarrow> game \<Rightarrow> game" where
  "keyup key st = st\<lparr>pressedKeys := pressedKeys st - {toLowerCase key}\<rparr>"

text \<open>The callback of \<open>setInterval\<close>, run every 16 ms.\<close>

definition active_controls :: "game \<Rightarrow> controls" where
  "active_controls st = (if playerId st = ''player1'' then PLAYER1 else PLAYER2)"

definition tick :: "game \<Rightarrow> game" where
  "tick st =
     (let ctl = active_controls st;
          st1 = (if toLowerCase (UP ctl) \<in> pressedKeys st then sendInput ''UP'' st else st);
          st2 = (if toLowerCase (DOWN ctl) \<in> pressedKeys st1 then sendInput ''DOWN'' st1 else st1);
          st3 = (if toLowerCase (LEFT ctl) \<in> pressedKeys st2 then sendInput ''LEFT'' st2 else st2)
      in if toLowerCase (RIGHT ctl) \<in> pressedKeys st3 then sendInput ''RIGHT'' st3 else st3)"


subsection \<open>render\<close>

text \<open>
  What a render paints is the list of the calls it makes on the 2D context, in order,
  each with its arguments as the context receives them: \<open>fillRect\<close> and \<open>arc\<close> convert
  their arguments to numbers, \<open>fillText\<close> converts its text to a string, and a conversion
  can raise. \<open>Arc x y r\<close> is \<open>arc(x, y, r, 0, Math.PI * 2)\<close>; the context returns from it
  without drawing when an argument is infinite or NaN, and raises an IndexSizeError when
  all are finite and the radius is negative. A call the context ignores (a rectangle with
  an argument that is not finite) is listed all the same. A render that ends by an
  exception is \<open>Inl\<close>; the calls it made before are not kept.
\<close>

datatype ctx_op =
    FillStyle string
  | StrokeStyle string
  | LineWidth nat
  | SetLineDash "nat list"
  | BeginPath
  | MoveTo jsnum jsnum
  | LineTo jsnum jsnum
  | Stroke
  | FillRect jsnum jsnum jsnum jsnum
  | Arc jsnum jsnum jsnum
  | Fill
  | Font string
  | TextAlign string
  | FillText string jsnum jsnum

definition and_then :: "error + 'a \<Rightarrow> ('a \<Rightarrow> error + 'b) \<Rightarrow> error + 'b" where
  "and_then r k = (case r of Inl e \<Rightarrow> Inl e | Inr v \<Rightarrow> k v)"

text \<open>\<open>ctx.fillRect(x, y, w, h)\<close>: the arguments are converted from left to right.\<close>

definition fillRect :: "env \<Rightarrow> jsval \<Rightarrow> jsval \<Rightarrow> jsval \<Rightarrow> jsval \<Rightarrow> error + ctx_op list" where
  "fillRect e x y w h =
     and_then (ToNumber e x) (\<lambda>x'.
     and_then (ToNumber e y) (\<lambda>y'.
     and_then (ToNumber e w) (\<lambda>w'.
     and_then (ToNumber e h) (\<lambda>h'.
       Inr [FillRect x' y' w' h']))))"

text \<open>\<open>ctx.arc(x, y, radius, 0, Math.PI * 2)\<close>.\<close>

definition arc :: "env \<Rightarrow> jsval \<Rightarrow> jsval \<Rightarrow> jsval \<Rightarrow> error + ctx_op list" where
  "arc e x y radius =
     and_then (ToNumber e x) (\<lambda>x'.
     and_then (ToNumber e y) (\<lambda>y'.
     and_then (ToNumber e radius) (\<lambda>r'.
       if finite_number x' \<and> finite_number y' \<and> finite_number r' \<and> val r' < 0
       then Inl IndexSizeError
       else Inr [Arc x' y' r'])))"

text \<open>\<open>ctx.fillText(text, x, y)\<close>, with \<open>x\<close> and \<open>y\<close> numbers.\<close>

definition fillText :: "env \<Rightarrow> jsval \<Rightarrow> jsnum \<Rightarrow> jsnum \<Rightarrow> error + ctx_op list" where
  "fillText e text x y = and_then (ToString e text) (\<lambda>s. Inr [FillText s x y])"

definition drawCenterLine :: "game \<Rightarrow> ctx_op list" where
  "drawCenterLine st =
     [StrokeStyle COLORS_BOUNDARY, LineWidth 2, SetLineDash [10, 10], BeginPath,
      MoveTo (jsdiv (canvas_width st) (Fin 2)) (Fin 0),
      LineTo (jsdiv (canvas_width st) (Fin 2)) (canvas_height st),
      Stroke, SetLineDash []]"

definition drawPaddle :: "env \<Rightarrow> jsval \<Rightarrow> error + ctx_op list" where
  "drawPaddle e paddle =
     and_then (get paddle ''x'') (\<lambda>x.
     and_then (get paddle ''y'') (\<lambda>y.
     and_then (get paddle ''width'') (\<lambda>w.
     and_then (get paddle ''height'') (\<lambda>h.
     and_then (fillRect e x y w h) (\<lambda>rect.
       Inr (FillStyle PADDLE_COLOR # rect))))))"

definition drawBall :: "env \<Rightarrow> jsval \<Rightarrow> error + ctx_op list" where
  "drawBall e ball =
     and_then (get ball ''x'') (\<lambda>x.
     and_then (get ball ''y'') (\<lambda>y.
     and_then (get ball ''radius'') (\<lambda>r.
     and_then (arc e x y r) (\<lambda>circle.
       Inr ([FillStyle BALL_COLOR, BeginPath] @ circle @ [Fill])))))"

definition drawScores :: "env \<Rightarrow> game \<Rightarrow> error + ctx_op list" where
  "drawScores e st =
     and_then (get (gameState st) ''score1'') (\<lambda>score1.
     and_then (fillText e score1 (jsdiv (canvas_width st) (Fin 4)) (Fin 60)) (\<lambda>left.
     and_then (get (gameState st) ''score2'') (\<lambda>score2.
     and_then (fillText e score2 (jsmul (jsdiv (canvas_width st) (Fin 4)) (Fin 3)) (Fin 60)) (\<lambda>right.
       Inr ([FillStyle COLORS_TEXT, Font ''48px Arial'', TextAlign ''center''] @ left @ right)))))"

definition drawText :: "string \<Rightarrow> jsnum \<Rightarrow> jsnum \<Rightarrow> ctx_op list" where
  "drawText text x y =
     [FillStyle COLORS_TEXT, Font ''24px Arial'', TextAlign ''center'', FillText text x y]"

text \<open>The calls that clear the canvas, at the start of every render.\<close>

definition clear_canvas :: "game \<Rightarrow> ctx_op list" where
  "clear_canvas st =
     [FillStyle COLORS_BACKGROUND, FillRect (Fin 0) (Fin 0) (canvas_width st) (canvas_height st)]"

definition render :: "env \<Rightarrow> game \<Rightarrow> error + ctx_op list" where
  "render e st =
     (if \<not> truthy (gameState st)
      then Inr (clear_canvas st @
                drawText ''Waiting for game state...''
                  (jsdiv (canvas_width st) (Fin 2)) (jsdiv (canvas_height st) (Fin 2)))
      else
        and_then (get (gameState st) ''paddle1'') (\<lambda>paddle1.
        and_then (drawPaddle e paddle1) (\<lambda>p1.
        and_then (get (gameState st) ''paddle2'') (\<lambda>paddle2.
        and_then (drawPaddle e paddle2) (\<lambda>p2.
        and_then (get (gameState st) ''ball'') (\<lambda>ball.
        and_then (drawBall e ball) (\<lambda>b.
        and_then (drawScores e st) (\<lambda>scores.
          Inr (clear_canvas st @ drawCenterLine st @ p1 @ p2 @ b @ scores)))))))))"


section \<open>Pages and messages of the examples\<close>

text \<open>
  A page whose canvas container is \<open>w\<close> by \<open>h\<close> pixels. The examples assign to the canvas
  only whole numbers of pixels below \<open>2^31\<close>, which the setters store as they are, divide
  only numbers, and write only whole numbers that are not negative, in decimal digits;
  the conversions of this page are meant for no other value.
\<close>

definition whole_pixels :: "jsval \<Rightarrow> error + jsnum" where
  "whole_pixels v = (case v of JNum (Fin r) \<Rightarrow> Inr (Fin (of_int \<lfloor>r\<rfloor>)) | _ \<Rightarrow> Inr (Fin 0))"

fun decimal :: "nat \<Rightarrow> string" where
  "decimal n =
     (if n < 10 then [''0123456789'' ! n]
      else decimal (n div 10) @ [''0123456789'' ! (n mod 10)])"

declare decimal.simps [simp del]

definition whole_number_text :: "jsnum \<Rightarrow> string" where
  "whole_number_text n = (case n of Fin r \<Rightarrow> decimal (nat \<lfloor>r\<rfloor>) | _ \<Rightarrow> ''NaN'')"

definition page :: "rat \<Rightarrow> rat \<Rightarrow> env" where
  "page w h =
     \<lparr>clientWidth = Fin w, clientHeight = Fin h,
      ObjectToNumber = (\<lambda>v. Inr NaN),
      ObjectToString = (\<lambda>v. Inr ''[object Object]''),
      NumberToString = whole_number_text,
      set_width = whole_pixels, set_height = whole_pixels\<rparr>"

text \<open>The message \<open>{type: 'game_state', data: d}\<close>.\<close>

definition game_state_message :: "jsval \<Rightarrow> jsval" where
  "game_state_message d = JObject [(''type'', JString ''game_state''), (''data'', d)]"

text \<open>A snapshot that has only the two dimensions of the canvas.\<close>

definition dimensions :: "rat \<Rightarrow> rat \<Rightarrow> jsval" where
  "dimensions w h = JObject [(''canvas_width'', JNum (Fin w)), (''canvas_height'', JNum (Fin h))]"

text \<open>A complete snapshot of a game on an 800 by 600 canvas, with a ball of radius \<open>r\<close>.\<close>

definition snapshot_with_radius :: "rat \<Rightarrow> jsval" where
  "snapshot_with_radius r =
     JObject
       [(''paddle1'', JObject [(''x'', JNum (Fin 20)), (''y'', JNum (Fin 250)),
                               (''width'', JNum (Fin 10)), (''height'', JNum (Fin 100))]),
        (''paddle2'', JObject [(''x'', JNum (Fin 770)), (''y'', JNum (Fin 250)),
                               (''width'', JNum (Fin 10)), (''height'', JNum (Fin 100))]),
        (''ball'', JObject [(''x'', JNum (Fin 400)), (''y'', JNum (Fin 300)), (''radius'', JNum (Fin r))]),
        (''score1'', JNum (Fin 3)),
        (''score2'', JNum (Fin 5)),
        (''canvas_width'', JNum (Fin 800)),
        (''canvas_height'', JNum (Fin 600))]"

text \<open>A game after \<open>init\<close>, before the socket has opened; and one whose socket is open.\<close>

definition connecting :: "string \<Rightarrow> game" where
  "connecting pid = init (PongGame pid (Some []))"

definition opened :: "string \<Rightarrow> game" where
  "opened pid = onopen (connecting pid)"


section \<open>The display box as the specification computes it\<close>

text \<open>
  The specification of the Dimension Reconciler, in its words: with
  \<open>gameAspect = canvas_width / canvas_height\<close> and
  \<open>containerAspect = containerWidth / containerHeight\<close>, if \<open>containerAspect > gameAspect\<close>
  fit to height (\<open>displayHeight = containerHeight\<close>,
  \<open>displayWidth = displayHeight * gameAspect\<close>), else fit to width
  (\<open>displayWidth = containerWidth\<close>, \<open>displayHeight = displayWidth / gameAspect\<close>). The
  result is the pair \<open>(displayWidth, displayHeight)\<close>.
\<close>

definition spec_display_box :: "jsnum \<Rightarrow> jsnum \<Rightarrow> jsnum \<Rightarrow> jsnum \<Rightarrow> jsnum \<times> jsnum" where
  "spec_display_box containerWidth containerHeight cw ch =
     (let gameAspect = jsdiv cw ch;
          containerAspect = jsdiv containerWidth containerHeight
      in if jsgt containerAspect gameAspect
         then (let displayHeight = containerHeight in (jsmul displayHeight gameAspect, displayHeight))
         else (let displayWidth = containerWidth in (displayWidth, jsdiv displayWidth gameAspect)))"

section \<open>The frames of a tick as the specification lists them\<close>

text \<open>
  The specification of the Input Sampler, in its words: for each of the four directional
  intents, if the mapped key (per the active ControlScheme) is a member of the set of held
  keys, one message \<open>{type: input, action: <UP|DOWN|LEFT|RIGHT>}\<close>. The mapped key is
  compared in lower case, as the held keys are stored.
\<close>

definition spec_tick_frames :: "game \<Rightarrow> frame list" where
  "spec_tick_frames st =
     concat (map (\<lambda>(key, action). if toLowerCase key \<in> pressedKeys st then [InputFrame action] else [])
       [(UP (active_controls st), ''UP''), (DOWN (active_controls st), ''DOWN''),
        (LEFT (active_controls st), ''LEFT''), (RIGHT (active_controls st), ''RIGHT'')])"

section \<open>Dimensions that neither overflow nor underflow\<close>

text \<open>
  A dimension between \<open>2^-256\<close> and \<open>2^256\<close>. With the four dimensions in this range
  every quotient and product \<open>handleResize\<close> computes is a normal double: none overflows
  to infinity, none underflows.
\<close>

definition moderate :: "rat \<Rightarrow> bool" where
  "moderate x = (2 powi (- 256) \<le> x \<and> x \<le> 2 powi 256)"

section \<open>Rounding\<close>

lemma floorlog2_bounds:
  fixes p :: int
  assumes "0 < p"
  shows "(2::rat) ^ (floorlog 2 (nat p) - 1) \<le> of_int p" "of_int p < (2::rat) ^ floorlog 2 (nat p)"
    "0 < floorlog 2 (nat p)"
proof -
  have np: "0 < nat p" using assms by simp
  from floorlog_bounds[OF np, of 2]
  have b: "2 ^ (floorlog 2 (nat p) - 1) \<le> nat p" "nat p < 2 ^ floorlog 2 (nat p)" by simp_all
  have "(of_nat (2 ^ (floorlog 2 (nat p) - 1)) :: rat) \<le> of_nat (nat p)"
    using b(1) of_nat_le_iff by blast
  then show "(2::rat) ^ (floorlog 2 (nat p) - 1) \<le> of_int p" using assms by simp
  have "(of_nat (nat p) :: rat) < of_nat (2 ^ floorlog 2 (nat p))"
    using b(2) of_nat_less_iff by blast
  then show "of_int p < (2::rat) ^ floorlog 2 (nat p)" using assms by simp
  show "0 < floorlog 2 (nat p)" using np by (simp add: floorlog_def)
qed

lemma powi_nat_diff: "(2::rat) powi (int m - int n) = 2 ^ m / 2 ^ n"
  by (simp add: power_int_diff)

lemma ilog2_bounds:
  assumes "0 < a"
  shows "2 powi (ilog2 a) \<le> a \<and> a < 2 powi (ilog2 a + 1)"
proof -
  obtain p q where pq: "quotient_of a = (p, q)" by (cases "quotient_of a")
  have q: "0 < q" using pq by (rule quotient_of_denom_pos)
  have a: "a = of_int p / of_int q" using pq by (rule quotient_of_div)
  have p: "0 < p" using assms q a by (simp add: zero_less_divide_iff)
  define bp where "bp = floorlog 2 (nat p)"
  define bq where "bq = floorlog 2 (nat q)"
  define d where "d = int bp - int bq"
  note P = floorlog2_bounds[OF p, folded bp_def]
  note Q = floorlog2_bounds[OF q, folded bq_def]
  have up: "a < 2 powi (d + 1)"
  proof -
    have "of_int p / of_int q < (2::rat) ^ bp / 2 ^ (bq - 1)"
      using P Q p q by (intro frac_less) auto
    moreover have "d + 1 = int bp - int (bq - 1)" using Q(3) by (simp add: d_def)
    ultimately show ?thesis unfolding a by (simp only: powi_nat_diff)
  qed
  have lo: "2 powi (d - 1) < a"
  proof -
    have "(2::rat) ^ (bp - 1) / 2 ^ bq < of_int p / of_int q"
      using P Q p q by (intro frac_less2) auto
    moreover have "d - 1 = int (bp - 1) - int bq" using P(3) by (simp add: d_def)
    ultimately show ?thesis unfolding a by (simp only: powi_nat_diff)
  qed
  have il: "ilog2 a = (if 2 powi d \<le> a then d else d - 1)"
    by (simp add: ilog2_def pq Let_def bp_def bq_def d_def)
  show ?thesis
  proof (cases "2 powi d \<le> a")
    case True
    then show ?thesis using up il by simp
  next
    case False
    then show ?thesis using lo il by simp
  qed
qed

lemma powi_mono2: "k \<le> l \<Longrightarrow> (2::rat) powi k \<le> 2 powi l"
  by (rule power_int_increasing) auto

lemma ilog2_unique:
  assumes "2 powi k \<le> a" "a < 2 powi (k + 1)"
  shows "ilog2 a = k"
proof -
  have a: "0 < a" using assms(1) by (smt (verit) zero_less_power_int zero_less_numeral order_less_le_trans)
  from ilog2_bounds[OF a] have b: "2 powi (ilog2 a) \<le> a" "a < 2 powi (ilog2 a + 1)" by auto
  have "\<not> k + 1 \<le> ilog2 a"
  proof
    assume "k + 1 \<le> ilog2 a"
    then have "(2::rat) powi (k + 1) \<le> 2 powi (ilog2 a)" by (rule powi_mono2)
    then show False using b(1) assms(2) by linarith
  qed
  moreover have "\<not> ilog2 a + 1 \<le> k"
  proof
    assume "ilog2 a + 1 \<le> k"
    then have "(2::rat) powi (ilog2 a + 1) \<le> 2 powi k" by (rule powi_mono2)
    then show False using b(2) assms(1) by linarith
  qed
  ultimately show ?thesis by linarith
qed

lemma round_half_even_near: "\<bar>of_int (round_half_even t) - t\<bar> \<le> 1 / 2"
proof -
  have "of_int \<lfloor>t\<rfloor> \<le> t" "t < of_int \<lfloor>t\<rfloor> + 1" by linarith+
  then show ?thesis by (auto simp: round_half_even_def Let_def)
qed

lemma round_half_even_eq:
  assumes "\<bar>t - of_int m\<bar> < 1 / 2"
  shows "round_half_even t = m"
proof -
  have "\<bar>of_int (round_half_even t) - (of_int m :: rat)\<bar> < 1"
    using round_half_even_near[of t] assms by linarith
  then have "\<bar>(of_int (round_half_even t - m) :: rat)\<bar> < 1" by simp
  then have "\<bar>round_half_even t - m\<bar> < 1" 
    by (metis of_int_abs of_int_less_1_iff)
  then show ?thesis by linarith
qed


lemma powi_split: "(2::rat) powi (k + l) = 2 powi k * 2 powi l"
  by (simp add: power_int_add)

lemma fl_normal:
  assumes lo: "2 powi k \<le> a" and hi: "a < 2 powi (k + 1)" and k: "- 1022 \<le> k" "k \<le> 1022"
  defines "m \<equiv> round_half_even (a / 2 powi (k - 52))"
  defines "y \<equiv> of_int m * 2 powi (k - 52)"
  shows "fl neg a = Fin (if neg then - y else y)"
    and "\<bar>y - a\<bar> \<le> 2 powi (k - 53)"
    and "2 powi k \<le> y" and "y \<le> 2 powi (k + 1)"
proof -
  define u :: rat where "u = 2 powi (k - 52)"
  have u: "0 < u" by (simp add: u_def)
  have a: "0 < a" using lo by (smt (verit) zero_less_power_int zero_less_numeral order_less_le_trans)
  have il: "ilog2 a = k" using lo hi by (rule ilog2_unique)
  have e: "max (ilog2 a - 52) (- 1074) = k - 52" using k il by simp
  define t where "t = a / u"
  have pk: "(2::rat) powi k = 2 ^ 52 * u"
    using powi_split[of 52 "k - 52"] by (simp add: u_def)
  have pk1: "(2::rat) powi (k + 1) = 2 ^ 53 * u"
    using powi_split[of 53 "k - 52"] by (simp add: u_def add.commute)
  have t1: "2 ^ 52 \<le> t" using lo u unfolding pk t_def by (simp add: pos_le_divide_eq)
  have t2: "t < 2 ^ 53" using hi u unfolding pk1 t_def by (simp add: pos_divide_less_eq)
  have near: "\<bar>of_int m - t\<bar> \<le> 1 / 2"
    unfolding m_def t_def u_def by (rule round_half_even_near)
  have "(2::rat) ^ 52 - 1 < of_int m" using near t1 by linarith
  then have "(of_int (2 ^ 52 - 1) :: rat) < of_int m" by simp
  then have "2 ^ 52 - 1 < m" by (simp only: of_int_less_iff)
  then have m1: "2 ^ 52 \<le> m" by simp
  have "of_int m < (2::rat) ^ 53 + 1" using near t2 by linarith
  then have "(of_int m :: rat) < of_int (2 ^ 53 + 1)" by simp
  then have "m < 2 ^ 53 + 1" by (simp only: of_int_less_iff)
  then have m2: "m \<le> 2 ^ 53" by simp
  have y: "y = of_int m * u" by (simp add: y_def u_def)
  have "(2::rat) ^ 52 \<le> of_int m" using m1 by (metis of_int_le_iff of_int_numeral of_int_power)
  then show ylo: "2 powi k \<le> y" unfolding pk y using u by simp
  have "of_int m \<le> (2::rat) ^ 53" using m2 by (metis of_int_le_iff of_int_numeral of_int_power)
  then show yhi: "y \<le> 2 powi (k + 1)" unfolding pk1 y using u by simp
  have "(2::rat) powi (k + 1) \<le> 2 powi 1023" using k by (intro powi_mono2) simp
  also have "\<dots> < 2 ^ 1024" by simp
  finally have nov: "\<not> 2 ^ 1024 \<le> y" using yhi by simp
  have m0: "m \<noteq> 0" using m1 by auto
  show "fl neg a = Fin (if neg then - y else y)"
    using a nov m0 by (simp add: fl_def e Let_def m_def[symmetric] y_def[symmetric])
  have "y - a = (of_int m - t) * u" using u by (simp add: y t_def field_simps)
  then have "\<bar>y - a\<bar> = \<bar>of_int m - t\<bar> * u" using u by (simp add: abs_mult)
  also have "\<dots> \<le> 1 / 2 * u" using near u by (intro mult_right_mono) auto
  also have "\<dots> = 2 powi (k - 53)"
    using powi_split[of "-1" "k - 52"] by (simp add: u_def)
  finally show "\<bar>y - a\<bar> \<le> 2 powi (k - 53)" .
qed

lemma fl_eq:
  assumes "2 powi k \<le> a" "a < 2 powi (k + 1)" "- 1022 \<le> k" "k \<le> 1022"
    and "\<bar>a / 2 powi (k - 52) - of_int m\<bar> < 1 / 2"
  shows "fl neg a = Fin (if neg then - (of_int m * 2 powi (k - 52)) else of_int m * 2 powi (k - 52))"
  using fl_normal(1)[OF assms(1-4)] round_half_even_eq[OF assms(5)] by simp


text \<open>
  Out of the range of the doubles a result is infinite, or zero: \<open>2^1000 * 2^24\<close>
  overflows, \<open>2^-1000 / 2^80\<close> underflows.
\<close>

lemma overflow_example: "jsmul (Fin (2 ^ 1000)) (Fin (2 ^ 24)) = PInf"
proof -
  have "ilog2 (2 ^ 1024) = 1024"
    by (rule ilog2_unique) simp_all
  moreover have "round_half_even (2 ^ 52) = 2 ^ 52"
    using round_half_even_eq[of "2 ^ 52" "2 ^ 52"] by simp
  moreover have "(2::rat) ^ 1024 / 2 powi 972 = 2 ^ 52"
    using power_int_diff[of "2::rat" 1024 972] by simp
  moreover have "(2::rat) ^ 52 * 2 powi 972 = 2 ^ 1024"
    using powi_split[of 52 972] by simp
  ultimately have "fl False (2 ^ 1024) = PInf"
    by (simp add: fl_def signed_inf_def Let_def)
  moreover have "(2::rat) ^ 1000 * 2 ^ 24 = 2 ^ 1024" by simp
  ultimately show ?thesis by (simp add: jsmul_def)
qed

lemma underflow_example: "jsdiv (Fin (1 / 2 ^ 1000)) (Fin (2 ^ 80)) = Fin 0"
proof -
  have a: "(1 / 2 ^ 1000 / 2 ^ 80 :: rat) = 2 powi (- 1080)"
    using power_int_diff[of "2::rat" "- 1000" 80] by (simp add: power_int_minus field_simps)
  have "ilog2 (2 powi (- 1080)) = - 1080"
    by (rule ilog2_unique) (simp_all add: power_int_minus field_simps)
  moreover have "(2::rat) powi (- 1080) / 2 powi (- 1074) = 1 / 64"
    using power_int_diff[of "2::rat" "- 1080" "- 1074"] by (simp add: power_int_minus)
  moreover have "round_half_even (1 / 64) = 0"
    using round_half_even_eq[of "1 / 64" 0] by simp
  ultimately have "fl False (2 powi (- 1080)) = Fin 0"
    by (simp add: fl_def signed_zero_def Let_def)
  then show ?thesis by (simp add: jsdiv_def a del: power_int_minus)
qed

text \<open>
  In the normal range a result lies within \<open>2^-53\<close> of the exact value, relatively.
\<close>

lemma fl_relative_error:
  assumes lo: "2 powi (- 1022) \<le> x" and hi: "x \<le> 2 powi 1022"
  shows "\<exists>y. fl False x = Fin y \<and> \<bar>y - x\<bar> \<le> x * 2 powi (- 53)"
proof -
  have x: "0 < x" using lo by (smt (verit) zero_less_power_int zero_less_numeral order_less_le_trans)
  define k where "k = ilog2 x"
  from ilog2_bounds[OF x] have b: "2 powi k \<le> x" "x < 2 powi (k + 1)" by (auto simp: k_def)
  have k1: "- 1022 \<le> k"
  proof (rule ccontr)
    assume "\<not> - 1022 \<le> k"
    then have "k + 1 \<le> - 1022" by simp
    then have "(2::rat) powi (k + 1) \<le> 2 powi (- 1022)" by (rule powi_mono2)
    then show False using b(2) lo by linarith
  qed
  have k2: "k \<le> 1022"
  proof (rule ccontr)
    assume "\<not> k \<le> 1022"
    then have "1022 + 1 \<le> k" by simp
    then have "(2::rat) powi (1022 + 1) \<le> 2 powi k" by (rule powi_mono2)
    moreover have "(2::rat) powi 1022 < 2 powi (1022 + 1)"
      by (rule power_int_strict_increasing) auto
    ultimately show False using b(1) hi by linarith
  qed
  note N = fl_normal(1)[OF b k1 k2, where neg = False] fl_normal(2)[OF b k1 k2]
  have "(2::rat) powi (k - 53) = 2 powi k * 2 powi (- 53)"
    using powi_split[of k "- 53"] by simp
  also have "\<dots> \<le> x * 2 powi (- 53)" using b(1) by (intro mult_right_mono) auto
  finally show ?thesis using N(1,2) by auto
qed

lemma fit_height_error:
  fixes r g y H u :: rat
  assumes "0 < r" "0 < H" "0 \<le> u" "u \<le> 1"
    and g: "\<bar>g - r\<bar> \<le> r * u" and y: "\<bar>y - H * g\<bar> \<le> (H * g) * u"
  shows "\<bar>y / H - r\<bar> \<le> r * (4 * u)"
proof -
  have ru: "r * u \<le> r" using assms(1,3,4) by (simp add: mult_left_le)
  have g0: "0 \<le> g" using g ru by linarith
  have g2: "g \<le> 2 * r" using g ru by linarith
  have "y / H - g = (y - H * g) / H" using assms(2) by (simp add: field_simps)
  then have "\<bar>y / H - g\<bar> = \<bar>y - H * g\<bar> / H" using assms(2) by simp
  also have "\<dots> \<le> ((H * g) * u) / H" using y assms(2) by (intro divide_right_mono) auto
  also have "\<dots> = g * u" using assms(2) by simp
  also have "\<dots> \<le> (2 * r) * u" using g2 assms(3) by (rule mult_right_mono)
  finally have "\<bar>y / H - g\<bar> \<le> 2 * (r * u)" by simp
  then have "\<bar>y / H - r\<bar> \<le> 3 * (r * u)" using g by linarith
  moreover have "0 \<le> r * u" using assms(1,3) by simp
  ultimately show ?thesis by linarith
qed

lemma fit_width_error:
  fixes r g z W u :: rat
  assumes r: "0 < r" and W: "0 < W" and u0: "0 \<le> u" and u1: "u \<le> 1 / 2"
    and g: "\<bar>g - r\<bar> \<le> r * u" and z: "\<bar>z - W / g\<bar> \<le> (W / g) * u"
  shows "0 < z \<and> \<bar>W / z - r\<bar> \<le> r * (4 * u)"
proof -
  have ru: "r * u \<le> r * (1 / 2)" using r u1 by (intro mult_left_mono) auto
  have gl: "r * (1 - u) \<le> g" and gh: "g \<le> r * (1 + u)" using g by (auto simp: abs_le_iff algebra_simps)
  have "0 < r * (1 - u)" using r u1 by (intro mult_pos_pos) auto
  then have gpos: "0 < g" using gl by linarith
  define q where "q = W / g"
  have q: "0 < q" using W gpos by (simp add: q_def)
  have qu: "q * u \<le> q * (1 / 2)" using q u1 by (intro mult_left_mono) auto
  have zl: "q * (1 - u) \<le> z" and zh: "z \<le> q * (1 + u)"
    using z unfolding q_def[symmetric] by (auto simp: abs_le_iff algebra_simps)
  have "0 < q * (1 - u)" using q u1 by (intro mult_pos_pos) auto
  then have zpos: "0 < z" using zl by linarith
  have Wq: "W = q * g" using gpos by (simp add: q_def)
  have um: "0 < 1 - u" and up: "0 < 1 + u" using u0 u1 by linarith+
  have "W / z \<le> W / (q * (1 - u))"
    using zl W q um by (intro divide_left_mono) (auto simp: zpos less_imp_le intro: mult_pos_pos)
  also have "\<dots> = g / (1 - u)" using q by (simp add: Wq)
  also have "\<dots> \<le> (r * (1 + u)) / (1 - u)" using gh um by (simp add: divide_right_mono)
  also have "\<dots> \<le> r * (1 + 4 * u)"
  proof -
    have "0 \<le> (2 * u) * (1 - 2 * u)" using u0 u1 by (intro mult_nonneg_nonneg) auto
    then have "1 + u \<le> (1 + 4 * u) * (1 - u)" by (simp add: algebra_simps)
    then have "(1 + u) / (1 - u) \<le> 1 + 4 * u" using um by (simp add: pos_divide_le_eq)
    then have "r * ((1 + u) / (1 - u)) \<le> r * (1 + 4 * u)" using r by (intro mult_left_mono) auto
    then show ?thesis by simp
  qed
  finally have upper: "W / z \<le> r * (1 + 4 * u)" .
  have "r * (1 - 4 * u) \<le> (r * (1 - u)) / (1 + u)"
  proof -
    have "0 \<le> u * u" using u0 by simp
    then have "(1 - 4 * u) * (1 + u) \<le> 1 - u" using u0 by (simp add: algebra_simps)
    then have "1 - 4 * u \<le> (1 - u) / (1 + u)" using up by (simp add: pos_le_divide_eq)
    then have "r * (1 - 4 * u) \<le> r * ((1 - u) / (1 + u))" using r by (intro mult_left_mono) auto
    then show ?thesis by simp
  qed
  also have "\<dots> \<le> g / (1 + u)" using gl up by (simp add: divide_right_mono)
  also have "\<dots> = W / (q * (1 + u))" using q by (simp add: Wq)
  also have "\<dots> \<le> W / z"
    using zh W zpos by (intro divide_left_mono) (auto simp: less_imp_le intro: mult_pos_pos)
  finally have lower: "r * (1 - 4 * u) \<le> W / z" .
  have "\<bar>W / z - r\<bar> \<le> r * (4 * u)" using upper lower by (simp add: abs_le_iff algebra_simps)
  then show ?thesis using zpos by simp
qed

lemma jsdiv_pos: "0 < x \<Longrightarrow> 0 < y \<Longrightarrow> jsdiv (Fin x) (Fin y) = fl False (x / y)"
  by (simp add: jsdiv_def)

lemma jsmul_pos: "0 < x \<Longrightarrow> 0 < y \<Longrightarrow> jsmul (Fin x) (Fin y) = fl False (x * y)"
  by (simp add: jsmul_def)

lemma moderate_pos: "moderate x \<Longrightarrow> 0 < x"
  unfolding moderate_def
  by (smt (verit) zero_less_power_int zero_less_numeral order_less_le_trans)

lemma moderate_quotient:
  assumes "moderate x" "moderate y"
  shows "2 powi (- 512) \<le> x / y" "x / y \<le> 2 powi 512"
proof -
  have y: "0 < y" using assms(2) by (rule moderate_pos)
  have "(2::rat) powi (- 256) / 2 powi 256 \<le> x / y"
    using assms y unfolding moderate_def by (intro frac_le) auto
  moreover have "(2::rat) powi (- 256) / 2 powi 256 = 2 powi (- 512)"
    using power_int_diff[of "2::rat" "- 256" 256] by simp
  ultimately show "2 powi (- 512) \<le> x / y" by simp
  have "x / y \<le> (2::rat) powi 256 / 2 powi (- 256)"
    using assms y unfolding moderate_def by (intro frac_le) auto
  moreover have "(2::rat) powi 256 / 2 powi (- 256) = 2 powi 512"
    using power_int_diff[of "2::rat" 256 "- 256"] by simp
  ultimately show "x / y \<le> 2 powi 512" by simp
qed

lemma box_aspect:
  assumes a: "moderate a" and b: "moderate b" and W: "moderate W" and H: "moderate H"
  shows "\<exists>dw dh. spec_display_box (Fin W) (Fin H) (Fin a) (Fin b) = (Fin dw, Fin dh)
           \<and> 0 < dw \<and> 0 < dh \<and> \<bar>dw / dh - a / b\<bar> \<le> (a / b) * 2 powi (- 51)"
proof -
  have p1: "(2::rat) powi (- 1022) \<le> 2 powi (- 512)" by (rule powi_mono2) simp
  have p2: "(2::rat) powi 512 \<le> 2 powi 1022" by (rule powi_mono2) simp
  have p3: "(2::rat) powi (- 1022) \<le> 2 powi (- 769)" by (rule powi_mono2) simp
  have p4: "(2::rat) powi 769 \<le> 2 powi 1022" by (rule powi_mono2) simp
  define u :: rat where "u = 2 powi (- 53)"
  have u: "0 \<le> u" "u \<le> 1 / 2" "u \<le> 1" "4 * u = 2 powi (- 51)"
    using powi_split[of 2 "- 53"] by (simp_all add: u_def)
  note pos = moderate_pos[OF a] moderate_pos[OF b] moderate_pos[OF W] moderate_pos[OF H]
  define r where "r = a / b"
  have r: "0 < r" using pos by (simp add: r_def)
  note rb = moderate_quotient[OF a b, folded r_def]
  have "2 powi (- 1022) \<le> r" "r \<le> 2 powi 1022"
    using order_trans[OF p1 rb(1)] order_trans[OF rb(2) p2] by blast+
  from fl_relative_error[OF this] obtain g where g: "fl False r = Fin g" "\<bar>g - r\<bar> \<le> r * u"
    by (auto simp: u_def)
  have ga: "jsdiv (Fin a) (Fin b) = Fin g" using pos g(1) by (simp add: jsdiv_pos r_def)
  have "r * u \<le> r * (1 / 2)" using r u(2) by (intro mult_left_mono) auto
  then have ru: "r * u \<le> r / 2" by simp
  have gl: "r / 2 \<le> g" using g(2) ru by linarith
  have gh: "g \<le> 2 * r" using g(2) ru r by linarith
  have gpos: "0 < g" using gl r by linarith
  have gb: "2 powi (- 513) \<le> g" "g \<le> 2 powi 513"
  proof -
    have "(2::rat) powi (- 513) = 2 powi (- 512) / 2" using powi_split[of "- 512" "- 1"] by simp
    then show "2 powi (- 513) \<le> g" using rb(1) gl by linarith
    have "(2::rat) powi 513 = 2 * 2 powi 512" using powi_split[of 512 1] by simp
    then show "g \<le> 2 powi 513" using rb(2) gh by linarith
  qed
  note cb = moderate_quotient[OF W H]
  have "2 powi (- 1022) \<le> W / H" "W / H \<le> 2 powi 1022"
    using order_trans[OF p1 cb(1)] order_trans[OF cb(2) p2] by blast+
  from fl_relative_error[OF this] obtain c where c: "fl False (W / H) = Fin c" by auto
  have ca: "jsdiv (Fin W) (Fin H) = Fin c" using pos c by (simp add: jsdiv_pos)
  show ?thesis
  proof (cases "g < c")
    case True
    have lo: "2 powi (- 1022) \<le> H * g"
    proof -
      have "(2::rat) powi (- 256) * 2 powi (- 513) \<le> H * g"
        using H gb(1) unfolding moderate_def by (intro mult_mono) auto
      moreover have "(2::rat) powi (- 256) * 2 powi (- 513) = 2 powi (- 769)"
        using powi_split[of "- 256" "- 513"] by simp
      ultimately show ?thesis using p3 by linarith
    qed
    have hi: "H * g \<le> 2 powi 1022"
    proof -
      have "H * g \<le> (2::rat) powi 256 * 2 powi 513"
        using H gb(2) gpos pos unfolding moderate_def by (intro mult_mono) auto
      moreover have "(2::rat) powi 256 * 2 powi 513 = 2 powi 769"
        using powi_split[of 256 513] by simp
      ultimately show ?thesis using p4 by linarith
    qed
    from fl_relative_error[OF lo hi] obtain y where
      y: "fl False (H * g) = Fin y" "\<bar>y - H * g\<bar> \<le> (H * g) * u"
      by (auto simp: u_def)
    have Hg: "0 < H * g" using pos gpos by simp
    have "(H * g) * u \<le> (H * g) * (1 / 2)" using Hg u(2) by (intro mult_left_mono) auto
    then have "(H * g) * u \<le> (H * g) / 2" by simp
    then have ypos: "0 < y" using y(2) Hg by linarith
    have "spec_display_box (Fin W) (Fin H) (Fin a) (Fin b) = (Fin y, Fin H)"
      using True pos gpos y(1) by (simp add: spec_display_box_def ga ca jsgt_def jsmul_pos)
    moreover have "\<bar>y / H - r\<bar> \<le> r * (4 * u)"
      using r pos(4) u(1,3) g(2) y(2) by (rule fit_height_error)
    ultimately show ?thesis using ypos pos(4) by (simp add: r_def u(4))
  next
    case False
    have lo: "2 powi (- 1022) \<le> W / g"
    proof -
      have "(2::rat) powi (- 256) / 2 powi 513 \<le> W / g"
        using W gb(2) gpos unfolding moderate_def by (intro frac_le) auto
      moreover have "(2::rat) powi (- 256) / 2 powi 513 = 2 powi (- 769)"
        using power_int_diff[of "2::rat" "- 256" 513] by simp
      ultimately show ?thesis using p3 by linarith
    qed
    have hi: "W / g \<le> 2 powi 1022"
    proof -
      have "W / g \<le> (2::rat) powi 256 / 2 powi (- 513)"
        using W gb(1) pos unfolding moderate_def by (intro frac_le) auto
      moreover have "(2::rat) powi 256 / 2 powi (- 513) = 2 powi 769"
        using power_int_diff[of "2::rat" 256 "- 513"] by simp
      ultimately show ?thesis using p4 by linarith
    qed
    from fl_relative_error[OF lo hi] obtain z where
      z: "fl False (W / g) = Fin z" "\<bar>z - W / g\<bar> \<le> (W / g) * u"
      by (auto simp: u_def)
    have "spec_display_box (Fin W) (Fin H) (Fin a) (Fin b) = (Fin W, Fin z)"
      using False pos gpos z(1) by (simp add: spec_display_box_def ga ca jsgt_def jsdiv_pos)
    moreover have "0 < z \<and> \<bar>W / z - r\<bar> \<le> r * (4 * u)"
      using r pos(3) u(1,2) g(2) z(2) by (rule fit_width_error)
    ultimately show ?thesis using pos(3) by (simp add: r_def u(4))
  qed
qed

section \<open>The examples, evaluated\<close>

lemma aspect_800_600: "jsdiv (Fin 800) (Fin 600) = Fin (6004799503160661 / 4503599627370496)"
  using fl_eq[of 0 "800 / 600" 6004799503160661 False] by (simp add: jsdiv_def)

lemma aspect_1000_500: "jsdiv (Fin 1000) (Fin 500) = Fin 2"
  using fl_eq[of 1 "1000 / 500" "2 ^ 52" False] by (simp add: jsdiv_def)

lemma aspect_400_500: "jsdiv (Fin 400) (Fin 500) = Fin (3602879701896397 / 4503599627370496)"
  using fl_eq[of "-1" "400 / 500" 7205759403792794 False] by (simp add: jsdiv_def)

lemma width_500:
  "jsmul (Fin 500) (Fin (6004799503160661 / 4503599627370496)) = Fin (5864062014805333 / 8796093022208)"
  using fl_eq[of 9 "500 * (6004799503160661 / 4503599627370496)" 5864062014805333 False]
  by (simp add: jsmul_def)

lemma height_400: "jsdiv (Fin 400) (Fin (6004799503160661 / 4503599627370496)) = Fin 300"
  using fl_eq[of 8 "400 / (6004799503160661 / 4503599627370496)" "300 * 2 ^ 44" False]
  by (simp add: jsdiv_def)

lemma box_1000_500:
  "spec_display_box (Fin 1000) (Fin 500) (Fin 800) (Fin 600) = (Fin (5864062014805333 / 8796093022208), Fin 500)"
  by (simp add: spec_display_box_def aspect_800_600 aspect_1000_500 width_500 jsgt_def)

lemma box_400_500: "spec_display_box (Fin 400) (Fin 500) (Fin 800) (Fin 600) = (Fin 400, Fin 300)"
  by (simp add: spec_display_box_def aspect_800_600 aspect_400_500 height_400 jsgt_def)

lemma connecting_eq:
  "connecting pid =
     \<lparr>playerId = pid, canvas_width = Fin 800, canvas_height = Fin 600,
      style_width = None, style_height = None, scaleX = Fin 1, scaleY = Fin 1,
      initialDimensionsSet = False,
      ws = Some \<lparr>url = WEBSOCKET_URL @ ''/'' @ pid, outbox = []\<rparr>,
      gameState = JNull, connected_flag = False, pressedKeys = {},
      console = [LogText (''Connecting to: '' @ WEBSOCKET_URL @ ''/'' @ pid)],
      statusElement = Some ''Status: Connecting...''\<rparr>"
  by (simp add: connecting_def init_def connectWebSocket_def PongGame_def updateConnectionStatus_def
      console_log_def CANVAS_WIDTH_def CANVAS_HEIGHT_def Let_def)

lemma opened_eq:
  "opened pid =
     \<lparr>playerId = pid, canvas_width = Fin 800, canvas_height = Fin 600,
      style_width = None, style_height = None, scaleX = Fin 1, scaleY = Fin 1,
      initialDimensionsSet = False,
      ws = Some \<lparr>url = WEBSOCKET_URL @ ''/'' @ pid, outbox = []\<rparr>,
      gameState = JNull, connected_flag = True, pressedKeys = {},
      console = [LogText (''Connecting to: '' @ WEBSOCKET_URL @ ''/'' @ pid),
                 LogText ''Connected to server!''],
      statusElement = Some ''Status: Connected''\<rparr>"
  by (simp add: opened_def connecting_eq onopen_def updateConnectionStatus_def console_log_def)

lemma scale_x_example:
  "jsdiv (Fin (5864062014805333 / 8796093022208)) (Fin 800) = Fin (3752999689475413 / 4503599627370496)"
  using fl_eq[of "-1" "(5864062014805333 / 8796093022208) / 800" 7505999378950826 False]
  by (simp add: jsdiv_def)

lemma scale_y_example: "jsdiv (Fin 500) (Fin 600) = Fin (7505999378950827 / 9007199254740992)"
  using fl_eq[of "-1" "500 / 600" 7505999378950827 False] by (simp add: jsdiv_def)


text \<open>
  The first snapshot a game receives, 800 by 600 as the canvas already is, on a page
  whose container is 1000 by 500.
\<close>

lemma first_snapshot:
  "onmessage (page 1000 500) (Some (game_state_message (dimensions 800 600))) (opened pid) =
     Inr \<lparr>playerId = pid, canvas_width = Fin 800, canvas_height = Fin 600,
          style_width = Some (Fin (5864062014805333 / 8796093022208)),
          style_height = Some (Fin 500),
          scaleX = Fin (3752999689475413 / 4503599627370496),
          scaleY = Fin (7505999378950827 / 9007199254740992),
          initialDimensionsSet = True,
          ws = Some \<lparr>url = WEBSOCKET_URL @ ''/'' @ pid, outbox = []\<rparr>,
          gameState = dimensions 800 600, connected_flag = True, pressedKeys = {},
          console = [LogText (''Connecting to: '' @ WEBSOCKET_URL @ ''/'' @ pid),
                     LogText ''Connected to server!'',
                     LogInitialDimensions (Fin 800) (Fin 600),
                     LogText ''Responsive scaling applied:'',
                     LogGameWorld (JNum (Fin 800)) (JNum (Fin 600)),
                     LogDisplaySize (Fin (5864062014805333 / 8796093022208)) (Fin 500),
                     LogScaleFactor (Fin (3752999689475413 / 4503599627370496))],
          statusElement = Some ''Status: Connected''\<rparr>"
  by (simp add: onmessage_def sync_dimensions_def handleResize_def eval_in_def property_def
      game_state_message_def dimensions_def opened_eq page_def whole_pixels_def divide_values_def
      ToNumber_def num_eq_def console_log_def Let_def jsgt_def
      aspect_800_600 aspect_1000_500 width_500 scale_x_example scale_y_example)

lemma after_first_snapshot:
  "gameState (final_state
      (onmessage (page 1000 500) (Some (game_state_message (dimensions 800 600))) (opened pid)))
    = JObject [(''canvas_width'', JNum (Fin 800)), (''canvas_height'', JNum (Fin 600))]"
  "initialDimensionsSet (final_state
      (onmessage (page 1000 500) (Some (game_state_message (dimensions 800 600))) (opened pid)))"
  by (simp_all only: first_snapshot) (simp_all add: final_state_def dimensions_def)

section \<open>The Dimension Reconciler\<close>

text \<open>
  A run of \<open>handleResize\<close> that passes its guard, on a snapshot whose two dimensions are
  numbers: it does not raise, and it writes the box of the specification and the two
  scale factors.
\<close>

lemma handleResize_numbers:
  assumes "gameState st = JObject d"
    and "map_of d ''canvas_width'' = Some (JNum a)"
    and "map_of d ''canvas_height'' = Some (JNum b)"
    and "initialDimensionsSet st"
  shows "handleResize e st =
    (let (dw, dh) = spec_display_box (clientWidth e) (clientHeight e) a b in
     Inr (console_log (LogScaleFactor (jsdiv dw a))
           (console_log (LogDisplaySize dw dh)
             (console_log (LogGameWorld (JNum a) (JNum b))
               (console_log (LogText ''Responsive scaling applied:'')
                 (st\<lparr>style_width := Some dw, style_height := Some dh,
                      scaleX := jsdiv dw a, scaleY := jsdiv dh b\<rparr>))))))"
  using assms
  by (simp add: handleResize_def eval_in_def property_def divide_values_def ToNumber_def
      spec_display_box_def Let_def)

text \<open>
  Claim C2. When \<open>handleResize\<close> runs (a snapshot is stored and the initial dimensions are
  set) on a snapshot whose \<open>canvas_width\<close> and \<open>canvas_height\<close> are numbers, it does not raise
  and the display box it writes to \<open>canvas.style\<close> is the one the specification describes:
  fit to height when \<open>containerAspect > gameAspect\<close>, fit to width otherwise. For the
  container 1000 by 500 and the geometry 800 by 600 the box is 500 high and
  \<open>500 * (800 / 600)\<close> wide, the double \<open>5864062014805333 / 2^43\<close>, within 0.01 of 666.67;
  for the container 400 by 500 it is 400 wide and exactly 300 high.
\<close>

theorem display_box_as_specified:
  assumes "gameState st = JObject d"
    and "map_of d ''canvas_width'' = Some (JNum a)"
    and "map_of d ''canvas_height'' = Some (JNum b)"
    and "initialDimensionsSet st"
  shows "raised (handleResize e st) = None
    \<and> style_width (final_state (handleResize e st))
        = Some (fst (spec_display_box (clientWidth e) (clientHeight e) a b))
    \<and> style_height (final_state (handleResize e st))
        = Some (snd (spec_display_box (clientWidth e) (clientHeight e) a b))
    \<and> spec_display_box (Fin 1000) (Fin 500) (Fin 800) (Fin 600)
        = (jsmul (Fin 500) (jsdiv (Fin 800) (Fin 600)), Fin 500)
    \<and> jsmul (Fin 500) (jsdiv (Fin 800) (Fin 600)) = Fin (5864062014805333 / 8796093022208)
    \<and> \<bar>5864062014805333 / 8796093022208 - 666.67\<bar> < (0.01 :: rat)
    \<and> spec_display_box (Fin 400) (Fin 500) (Fin 800) (Fin 600) = (Fin 400, Fin 300)"
  using handleResize_numbers[OF assms, of e]
  by (simp add: raised_def final_state_def console_log_def split_beta Let_def box_1000_500 box_400_500
      aspect_800_600 width_500)

text \<open>
  The two examples of the claim, run: after the snapshot 800 by 600 has been received the
  window is resized to 1000 by 500, or to 400 by 500.
\<close>

theorem display_box_as_specified_witness:
  "style_width (final_state (handleResize (page 1000 500) (final_state
      (onmessage (page 1000 500) (Some (game_state_message (dimensions 800 600))) (opened ''player1'')))))
     = Some (Fin (5864062014805333 / 8796093022208))
   \<and> style_height (final_state (handleResize (page 1000 500) (final_state
      (onmessage (page 1000 500) (Some (game_state_message (dimensions 800 600))) (opened ''player1'')))))
     = Some (Fin 500)
   \<and> style_width (final_state (handleResize (page 400 500) (final_state
      (onmessage (page 1000 500) (Some (game_state_message (dimensions 800 600))) (opened ''player1'')))))
     = Some (Fin 400)
   \<and> style_height (final_state (handleResize (page 400 500) (final_state
      (onmessage (page 1000 500) (Some (game_state_message (dimensions 800 600))) (opened ''player1'')))))
     = Some (Fin 300)"
proof -
  let ?st = "final_state
      (onmessage (page 1000 500) (Some (game_state_message (dimensions 800 600))) (opened ''player1''))"
  let ?d = "[(''canvas_width'', JNum (Fin 800)), (''canvas_height'', JNum (Fin 600))]"
  have h: "map_of ?d ''canvas_width'' = Some (JNum (Fin 800))"
    "map_of ?d ''canvas_height'' = Some (JNum (Fin 600))"
    by simp_all
  have p1: "clientWidth (page 1000 500) = Fin 1000" "clientHeight (page 1000 500) = Fin 500"
    and p2: "clientWidth (page 400 500) = Fin 400" "clientHeight (page 400 500) = Fin 500"
    by (simp_all add: page_def)
  note A = display_box_as_specified[OF after_first_snapshot(1) h after_first_snapshot(2),
      of "page 1000 500"]
  note B = display_box_as_specified[OF after_first_snapshot(1) h after_first_snapshot(2),
      of "page 400 500"]
  have "style_width (final_state (handleResize (page 1000 500) ?st)) = Some (Fin (5864062014805333 / 8796093022208))"
    using A by (simp only: p1 box_1000_500 fst_conv)
  moreover have "style_height (final_state (handleResize (page 1000 500) ?st)) = Some (Fin 500)"
    using A by (simp only: p1 box_1000_500 snd_conv)
  moreover have "style_width (final_state (handleResize (page 400 500) ?st)) = Some (Fin 400)"
    using B by (simp only: p2 box_400_500 fst_conv)
  moreover have "style_height (final_state (handleResize (page 400 500) ?st)) = Some (Fin 300)"
    using B by (simp only: p2 box_400_500 snd_conv)
  ultimately show ?thesis by blast
qed

section \<open>Outbound messages and the connection\<close>

text \<open>
  Claim C4. While the connection is not open (there is no socket, or the field
  \<open>connected\<close>, set by \<open>onopen\<close> and cleared by \<open>onclose\<close>, is false), \<open>resetGame\<close> and
  \<open>sendInput\<close> with any action return with the state as it was: no frame is sent and
  nothing is raised.
\<close>

theorem no_send_unless_open:
  assumes "ws st = None \<or> \<not> connected_flag st"
  shows "resetGame st = st \<and> sendInput action st = st
    \<and> sent (resetGame st) = sent st \<and> sent (sendInput action st) = sent st"
  using assms by (auto simp: resetGame_def sendInput_def split: option.splits)

theorem no_send_unless_open_witness:
  "(ws (connecting ''player1'') = None \<or> \<not> connected_flag (connecting ''player1''))
   \<and> resetGame (connecting ''player1'') = connecting ''player1''
   \<and> sendInput ''UP'' (connecting ''player1'') = connecting ''player1''
   \<and> sent (resetGame (connecting ''player1'')) = []
   \<and> sent (sendInput ''UP'' (connecting ''player1'')) = []
   \<and> (ws (onclose (opened ''player1'')) = None \<or> \<not> connected_flag (onclose (opened ''player1'')))
   \<and> sent (resetGame (onclose (opened ''player1''))) = []
   \<and> sent (sendInput ''DOWN'' (onclose (opened ''player1''))) = []"
proof -
  have c: "\<not> connected_flag (onclose (opened ''player1''))" "sent (onclose (opened ''player1'')) = []"
    by (simp_all add: onclose_def opened_eq updateConnectionStatus_def console_log_def sent_def)
  show ?thesis
    using no_send_unless_open[of "connecting ''player1''" "''UP''"]
      no_send_unless_open[of "onclose (opened ''player1'')" "''DOWN''"] c
    by (simp add: connecting_eq sent_def)
qed

section \<open>Inbound messages\<close>

text \<open>
  Claim C5, as stated, fails when the message has no data to read a field from: with
  \<open>data\<close> absent, or \<open>null\<close>, the handler assigns it to \<open>this.gameState\<close> and the read
  of \<open>this.gameState.canvas_width\<close> raises a TypeError.
\<close>

theorem game_state_without_data_raises:
  "raised (onmessage (page 1000 500) (Some (JObject [(''type'', JString ''game_state'')]))
      (opened ''player1'')) = Some TypeError
   \<and> gameState (final_state (onmessage (page 1000 500)
      (Some (JObject [(''type'', JString ''game_state'')])) (opened ''player1''))) = JUndefined
   \<and> raised (onmessage (page 1000 500) (Some (game_state_message JNull)) (opened ''player1''))
      = Some TypeError
   \<and> gameState (final_state (onmessage (page 1000 500) (Some (game_state_message JNull))
      (opened ''player1''))) = JNull"
  by (simp add: onmessage_def sync_dimensions_def eval_in_def game_state_message_def property_def
      raised_def final_state_def)

text \<open>
  Claim C5, amended. A \<open>game_state\<close> message whose data is a value other than \<open>null\<close>
  (an object, or a boolean, number, string or array) without the property \<open>canvas_width\<close>
  is handled without an exception, and the only change is that the data becomes the
  stored snapshot: the resolution of the canvas, the display box, the scale factors and
  the flag of the initial dimensions stay as they were.
\<close>

theorem game_state_without_canvas_width:
  assumes "map_of m ''type'' = Some (JString ''game_state'')"
    and "map_of m ''data'' = Some d"
    and "get d ''canvas_width'' = Inr JUndefined"
  shows "onmessage e (Some (JObject m)) st = Inr (st\<lparr>gameState := d\<rparr>)"
  using assms by (simp add: onmessage_def eval_in_def sync_dimensions_def property_def)

theorem game_state_without_canvas_width_witness:
  "get (JObject [(''score1'', JNum (Fin 1)), (''canvas_height'', JNum (Fin 600))]) ''canvas_width''
     = Inr JUndefined
   \<and> onmessage (page 1000 500)
     (Some (game_state_message (JObject [(''score1'', JNum (Fin 1)), (''canvas_height'', JNum (Fin 600))])))
     (opened ''player1'')
   = Inr ((opened ''player1'')\<lparr>gameState :=
            JObject [(''score1'', JNum (Fin 1)), (''canvas_height'', JNum (Fin 600))]\<rparr>)
   \<and> get (JNum (Fin 5)) ''canvas_width'' = Inr JUndefined
   \<and> onmessage (page 1000 500) (Some (game_state_message (JNum (Fin 5)))) (opened ''player1'')
     = Inr ((opened ''player1'')\<lparr>gameState := JNum (Fin 5)\<rparr>)"
  using game_state_without_canvas_width[of
      "[(''type'', JString ''game_state''),
        (''data'', JObject [(''score1'', JNum (Fin 1)), (''canvas_height'', JNum (Fin 600))])]"
      "JObject [(''score1'', JNum (Fin 1)), (''canvas_height'', JNum (Fin 600))]"
      "page 1000 500" "opened ''player1''"]
    game_state_without_canvas_width[of
      "[(''type'', JString ''game_state''), (''data'', JNum (Fin 5))]" "JNum (Fin 5)"
      "page 1000 500" "opened ''player1''"]
  by (simp add: game_state_message_def property_def)

text \<open>
  Claim C10. The dimensions of a \<open>game_state\<close> message are taken over only when both
  \<open>canvas_width\<close> and \<open>canvas_height\<close> are present and not zero: when \<open>canvas_height\<close> is
  absent, or either of the two is the number 0 (\<open>+0\<close> or \<open>-0\<close>), the handler does not
  raise and only replaces the stored snapshot; the resolution of the canvas, the flag of
  the initial dimensions, the display box and the scale factors stay as they were, so
  \<open>handleResize\<close> is not run on such a snapshot by this path.
\<close>

theorem dimensions_need_width_and_height:
  assumes "map_of m ''type'' = Some (JString ''game_state'')"
    and "map_of m ''data'' = Some (JObject d)"
    and "is_zero z"
    and "map_of d ''canvas_height'' = None
         \<or> map_of d ''canvas_width'' = Some (JNum z)
         \<or> map_of d ''canvas_height'' = Some (JNum z)"
  shows "onmessage e (Some (JObject m)) st = Inr (st\<lparr>gameState := JObject d\<rparr>)"
  using assms by (auto simp: onmessage_def eval_in_def sync_dimensions_def property_def)

theorem dimensions_need_width_and_height_witness:
  "is_zero (Fin 0)
   \<and> onmessage (page 1000 500)
       (Some (game_state_message (JObject [(''canvas_width'', JNum (Fin 1024))])))
       (opened ''player1'')
     = Inr ((opened ''player1'')\<lparr>gameState := JObject [(''canvas_width'', JNum (Fin 1024))]\<rparr>)
   \<and> onmessage (page 1000 500) (Some (game_state_message (dimensions 1024 0))) (opened ''player1'')
     = Inr ((opened ''player1'')\<lparr>gameState := dimensions 1024 0\<rparr>)"
  using dimensions_need_width_and_height[of
      "[(''type'', JString ''game_state''), (''data'', JObject [(''canvas_width'', JNum (Fin 1024))])]"
      "[(''canvas_width'', JNum (Fin 1024))]" "Fin 0" "page 1000 500" "opened ''player1''"]
    dimensions_need_width_and_height[of
      "[(''type'', JString ''game_state''), (''data'', dimensions 1024 0)]"
      "[(''canvas_width'', JNum (Fin 1024)), (''canvas_height'', JNum (Fin 0))]"
      "Fin 0" "page 1000 500" "opened ''player1''"]
  by (simp add: game_state_message_def dimensions_def)

section \<open>The gate of the Dimension Reconciler\<close>

text \<open>
  Claim C8, as stated, fails on the first snapshot. The canvas of a new game is 800 by
  600 (the values of \<open>config.js\<close>); a first \<open>game_state\<close> message with these very
  dimensions finds \<open>initialDimensionsSet\<close> false, so the handler sets the flag and runs
  \<open>handleResize\<close>: the display box and the scale factors change. The source says so:
  "Only update if dimensions changed or first time".
\<close>

theorem first_snapshot_with_the_canvas_dimensions_is_reconciled:
  "strict_eq (JNum (canvas_width (opened ''player1''))) (JNum (Fin 800))
   \<and> strict_eq (JNum (canvas_height (opened ''player1''))) (JNum (Fin 600))
   \<and> \<not> initialDimensionsSet (opened ''player1'')
   \<and> style_width (opened ''player1'') = None
   \<and> style_height (opened ''player1'') = None
   \<and> scaleX (opened ''player1'') = Fin 1
   \<and> initialDimensionsSet (final_state
        (onmessage (page 1000 500) (Some (game_state_message (dimensions 800 600))) (opened ''player1'')))
   \<and> style_width (final_state
        (onmessage (page 1000 500) (Some (game_state_message (dimensions 800 600))) (opened ''player1'')))
       = Some (Fin (5864062014805333 / 8796093022208))
   \<and> style_height (final_state
        (onmessage (page 1000 500) (Some (game_state_message (dimensions 800 600))) (opened ''player1'')))
       = Some (Fin 500)
   \<and> scaleX (final_state
        (onmessage (page 1000 500) (Some (game_state_message (dimensions 800 600))) (opened ''player1'')))
       = Fin (3752999689475413 / 4503599627370496)"
  by (simp add: first_snapshot final_state_def) (simp add: opened_eq num_eq_def)


text \<open>
  Claim C8, amended. \<open>handleResize\<close> called before a snapshot has set the initial
  dimensions returns with the state as it was. Once the initial dimensions are set, a
  \<open>game_state\<close> message whose \<open>canvas_width\<close> and \<open>canvas_height\<close> are strictly equal to
  \<open>canvas.width\<close> and \<open>canvas.height\<close> only replaces the stored snapshot: \<open>handleResize\<close>
  is not run, and the resolution of the canvas, the display box and the scale factors stay
  as they were.
\<close>

theorem reconciler_gate:
  "(\<not> initialDimensionsSet st0 \<longrightarrow> handleResize e0 st0 = Inr st0)
   \<and> (initialDimensionsSet st
        \<and> map_of m ''type'' = Some (JString ''game_state'')
        \<and> map_of m ''data'' = Some (JObject d)
        \<and> strict_eq (JNum (canvas_width st)) (property d ''canvas_width'')
        \<and> strict_eq (JNum (canvas_height st)) (property d ''canvas_height'')
      \<longrightarrow> onmessage e (Some (JObject m)) st = Inr (st\<lparr>gameState := JObject d\<rparr>))"
  by (simp add: handleResize_def onmessage_def sync_dimensions_def eval_in_def property_def)

theorem reconciler_gate_witness:
  "\<not> initialDimensionsSet (opened ''player1'')
   \<and> handleResize (page 400 500) (opened ''player1'') = Inr (opened ''player1'')
   \<and> initialDimensionsSet (final_state
        (onmessage (page 1000 500) (Some (game_state_message (dimensions 800 600))) (opened ''player1'')))
   \<and> onmessage (page 400 500) (Some (game_state_message (dimensions 800 600)))
        (final_state
          (onmessage (page 1000 500) (Some (game_state_message (dimensions 800 600))) (opened ''player1'')))
      = Inr ((final_state
          (onmessage (page 1000 500) (Some (game_state_message (dimensions 800 600))) (opened ''player1'')))
            \<lparr>gameState := dimensions 800 600\<rparr>)"
proof -
  let ?s = "final_state
        (onmessage (page 1000 500) (Some (game_state_message (dimensions 800 600))) (opened ''player1''))"
  let ?m = "[(''type'', JString ''game_state''), (''data'', dimensions 800 600)]"
  let ?d = "[(''canvas_width'', JNum (Fin 800)), (''canvas_height'', JNum (Fin 600))]"
  note G = reconciler_gate[of "opened ''player1''" "page 400 500" ?s ?m ?d "page 400 500"]
  have a: "\<not> initialDimensionsSet (opened ''player1'')" by (simp add: opened_eq)
  have b: "initialDimensionsSet ?s" "canvas_width ?s = Fin 800" "canvas_height ?s = Fin 600"
    by (simp_all add: first_snapshot final_state_def)
  have c: "strict_eq (JNum (canvas_width ?s)) (property ?d ''canvas_width'')"
    "strict_eq (JNum (canvas_height ?s)) (property ?d ''canvas_height'')"
    by (simp_all only: b) (simp_all add: property_def num_eq_def)
  have d: "map_of ?m ''type'' = Some (JString ''game_state'')" "map_of ?m ''data'' = Some (JObject ?d)"
    by (simp_all add: dimensions_def)
  have "handleResize (page 400 500) (opened ''player1'') = Inr (opened ''player1'')"
    using G a by blast
  moreover have "onmessage (page 400 500) (Some (JObject ?m)) ?s = Inr (?s\<lparr>gameState := JObject ?d\<rparr>)"
    using G b(1) c d by blast
  ultimately show ?thesis using a b(1) by (simp add: game_state_message_def dimensions_def)
qed


section \<open>Frames that are not recognised\<close>

text \<open>
  Claim C3, as stated, fails: a frame that is not valid JSON makes \<open>JSON.parse\<close> raise
  a SyntaxError, and the JSON frame \<open>null\<close> makes the read of \<open>message.type\<close> raise a
  TypeError; the handler has no \<open>try\<close>, so the exception leaves it.
\<close>

theorem frames_that_raise:
  "raised (onmessage (page 1000 500) None (opened ''player1'')) = Some SyntaxError
   \<and> raised (onmessage (page 1000 500) (Some JNull) (opened ''player1'')) = Some TypeError"
  by (simp add: onmessage_def raised_def eval_in_def)


text \<open>
  Claim C3, amended. A frame that is not valid JSON ends the handler by the SyntaxError
  of \<open>JSON.parse\<close>, and the JSON frame \<open>null\<close> by a TypeError; in both cases the state
  (stored snapshot, canvas, display box, status text, console) is as it was. Every other
  JSON frame whose \<open>type\<close> is none of \<open>game_state\<close>, \<open>connected\<close>, \<open>player_disconnected\<close>
  (or is absent) is dropped: the handler does not raise and changes nothing.
\<close>

theorem unrecognised_frames:
  "onmessage e None st = Inl (SyntaxError, st)
   \<and> onmessage e (Some JNull) st = Inl (TypeError, st)
   \<and> (get message ''type'' = Inr ty
        \<and> ty \<notin> {JString ''game_state'', JString ''connected'', JString ''player_disconnected''}
      \<longrightarrow> onmessage e (Some message) st = Inr st)"
proof -
  have "strict_eq ty (JString s) \<longleftrightarrow> ty = JString s" for ty s
    by (cases ty) auto
  then show ?thesis by (simp add: onmessage_def eval_in_def)
qed

theorem unrecognised_frames_witness:
  "get (JObject [(''type'', JString ''ping'')]) ''type'' = Inr (JString ''ping'')
   \<and> JString ''ping'' \<notin> {JString ''game_state'', JString ''connected'', JString ''player_disconnected''}
   \<and> onmessage (page 1000 500) (Some (JObject [(''type'', JString ''ping'')])) (opened ''player1'')
      = Inr (opened ''player1'')
   \<and> onmessage (page 1000 500) (Some (JNum (Fin 5))) (opened ''player1'') = Inr (opened ''player1'')"
  using unrecognised_frames[of "page 1000 500" "opened ''player1''" "JObject [(''type'', JString ''ping'')]"
      "JString ''ping''"]
    unrecognised_frames[of "page 1000 500" "opened ''player1''" "JNum (Fin 5)" JUndefined]
  by (simp add: property_def)


section \<open>The Input Sampler\<close>

lemma tick_open:
  assumes "ws st = Some w" "connected_flag st"
  shows "tick st = st\<lparr>ws := Some (w\<lparr>outbox := outbox w @ spec_tick_frames st\<rparr>)\<rparr>"
  using assms by (simp add: tick_def sendInput_def send_def spec_tick_frames_def Let_def)

lemma sendInput_not_open:
  "ws st = None \<or> \<not> connected_flag st \<Longrightarrow> sendInput action st = st"
  by (auto simp: sendInput_def split: option.splits)

lemma tick_not_open:
  assumes "ws st = None \<or> \<not> connected_flag st"
  shows "tick st = st"
  using assms by (simp add: tick_def Let_def sendInput_not_open)

lemma tick_keeps:
  "pressedKeys (tick st) = pressedKeys st \<and> playerId (tick st) = playerId st
   \<and> connected_flag (tick st) = connected_flag st \<and> (ws (tick st) = None \<longleftrightarrow> ws st = None)"
proof (cases "ws st")
  case None
  then show ?thesis by (simp add: tick_not_open)
next
  case (Some w)
  then show ?thesis by (cases "connected_flag st") (simp_all add: tick_open tick_not_open)
qed

lemma ticks_keep:
  "pressedKeys ((tick ^^ n) st) = pressedKeys st \<and> playerId ((tick ^^ n) st) = playerId st
   \<and> connected_flag ((tick ^^ n) st) = connected_flag st \<and> (ws ((tick ^^ n) st) = None \<longleftrightarrow> ws st = None)"
  by (induction n) (simp_all add: tick_keeps)

lemma player1_lower:
  "toLowerCase ''w'' = ''w''" "toLowerCase ''s'' = ''s''" "toLowerCase ''a'' = ''a''"
  "toLowerCase ''d'' = ''d''" "toLowerCase ''D'' = ''d''"
  by (simp_all add: toLowerCase_def lower_char_def)

lemma player2_lower:
  "toLowerCase ''ArrowUp'' = ''arrowup''" "toLowerCase ''ArrowDown'' = ''arrowdown''"
  "toLowerCase ''ArrowLeft'' = ''arrowleft''" "toLowerCase ''ArrowRight'' = ''arrowright''"
  "toLowerCase ''ARROWUP'' = ''arrowup''"
  by (simp_all add: toLowerCase_def lower_char_def)


text \<open>
  Claim C6, as stated, fails while the connection is not open: with \<open>w\<close> and \<open>d\<close> held
  under the scheme of player 1, before the socket has opened, a tick sends nothing
  (\<open>sendInput\<close> is guarded by \<open>this.ws && this.connected\<close>).
\<close>

theorem tick_without_connection_sends_nothing:
  "toLowerCase (UP PLAYER1) \<in> pressedKeys (keydown ''d'' (keydown ''w'' (connecting ''player1'')))
   \<and> toLowerCase (RIGHT PLAYER1) \<in> pressedKeys (keydown ''d'' (keydown ''w'' (connecting ''player1'')))
   \<and> active_controls (keydown ''d'' (keydown ''w'' (connecting ''player1''))) = PLAYER1
   \<and> sent (tick (keydown ''d'' (keydown ''w'' (connecting ''player1'')))) = []"
  by (simp add: tick_not_open keydown_def connecting_eq sent_def PLAYER1_def player1_lower
      active_controls_def)


text \<open>
  Claim C6, amended. On a tick while the connection is open, for each of the four
  directions, in the order UP, DOWN, LEFT, RIGHT, exactly one frame
  \<open>{type: input, action: <direction>}\<close> is sent if the key the active scheme maps to the
  direction, in lower case, is among the held keys, and none otherwise; the tick changes
  nothing else. With \<open>w\<close> and \<open>d\<close> held under the scheme of player 1 the frames are UP and
  RIGHT, and no other.
\<close>

theorem tick_sends_held_directions:
  assumes "ws st = Some w" and "connected_flag st"
  shows "tick st = st\<lparr>ws := Some (w\<lparr>outbox := outbox w @ spec_tick_frames st\<rparr>)\<rparr>
    \<and> sent (tick st) = sent st @ spec_tick_frames st
    \<and> (playerId st = ''player1'' \<and> pressedKeys st = {''w'', ''d''}
        \<longrightarrow> sent (tick st) = sent st @ [InputFrame ''UP'', InputFrame ''RIGHT''])"
  using assms
  by (simp add: tick_open sent_def)
     (simp add: spec_tick_frames_def active_controls_def PLAYER1_def player1_lower)

theorem tick_sends_held_directions_witness:
  "ws (keydown ''d'' (keydown ''w'' (opened ''player1'')))
     = Some \<lparr>url = WEBSOCKET_URL @ ''/player1'', outbox = []\<rparr>
   \<and> connected_flag (keydown ''d'' (keydown ''w'' (opened ''player1'')))
   \<and> playerId (keydown ''d'' (keydown ''w'' (opened ''player1''))) = ''player1''
   \<and> pressedKeys (keydown ''d'' (keydown ''w'' (opened ''player1''))) = {''w'', ''d''}
   \<and> sent (tick (keydown ''d'' (keydown ''w'' (opened ''player1''))))
      = [InputFrame ''UP'', InputFrame ''RIGHT'']"
proof -
  let ?st = "keydown ''d'' (keydown ''w'' (opened ''player1''))"
  have h: "ws ?st = Some \<lparr>url = WEBSOCKET_URL @ ''/player1'', outbox = []\<rparr>" "connected_flag ?st"
    "playerId ?st = ''player1''" "pressedKeys ?st = {''w'', ''d''}" "sent ?st = []"
    by (auto simp: keydown_def opened_eq player1_lower sent_def)
  have "playerId ?st = ''player1'' \<and> pressedKeys ?st = {''w'', ''d''}
      \<longrightarrow> sent (tick ?st) = sent ?st @ [InputFrame ''UP'', InputFrame ''RIGHT'']"
    using tick_sends_held_directions[OF h(1,2)] by (rule conjunct2[THEN conjunct2])
  then have "sent (tick ?st) = [InputFrame ''UP'', InputFrame ''RIGHT'']"
    using h(3,4,5) by simp
  then show ?thesis using h by simp
qed


lemma tick_frames:
  "sent (tick s) = sent s @ (if ws s \<noteq> None \<and> connected_flag s then spec_tick_frames s else [])"
proof (cases "ws s")
  case None
  then show ?thesis by (simp add: tick_not_open)
next
  case (Some w)
  then show ?thesis
    by (cases "connected_flag s") (simp_all add: tick_open tick_not_open sent_def)
qed

lemma frame_needs_key:
  assumes "(k, action) \<in> set [(UP (active_controls s), ''UP''), (DOWN (active_controls s), ''DOWN''),
                               (LEFT (active_controls s), ''LEFT''), (RIGHT (active_controls s), ''RIGHT'')]"
  shows "InputFrame action \<in> set (spec_tick_frames s) \<longleftrightarrow> toLowerCase k \<in> pressedKeys s"
  using assms by (auto simp: spec_tick_frames_def split: if_splits)

text \<open>
  Claim C9, as stated, fails while the connection is not open: with \<open>ARROWUP\<close> held
  under the scheme of player 2, whose key for UP is \<open>ArrowUp\<close>, a tick before the socket
  has opened sends nothing.
\<close>

theorem held_key_without_connection_sends_nothing:
  "toLowerCase ''ARROWUP'' = toLowerCase (UP (active_controls (connecting ''player2'')))
   \<and> sent (tick (keydown ''ARROWUP'' (connecting ''player2''))) = []"
  by (simp add: tick_not_open keydown_def connecting_eq sent_def PLAYER2_def player2_lower
      active_controls_def)


text \<open>
  Claim C9, amended. Key matching ignores case: the key of a key-down and the key of a
  key-up are put in lower case before they are added to, or removed from, the held keys,
  and the mapped key is compared in lower case. If the key that went down equals, in
  lower case, the key the active scheme maps to a direction, then while the connection
  is open every tick that follows (the key staying down) sends the frame of that
  direction; and once a key that equals the mapped key in lower case has gone up, no
  tick that follows sends it.
\<close>

theorem held_key_matches_in_any_case:
  assumes "(k, action) \<in> set [(UP (active_controls st), ''UP''), (DOWN (active_controls st), ''DOWN''),
                               (LEFT (active_controls st), ''LEFT''), (RIGHT (active_controls st), ''RIGHT'')]"
    and "toLowerCase key = toLowerCase k"
    and "toLowerCase key' = toLowerCase k"
  shows "(ws st \<noteq> None \<and> connected_flag st \<longrightarrow>
           InputFrame action \<in> set (drop (length (sent ((tick ^^ n) (keydown key st))))
                                         (sent ((tick ^^ Suc n) (keydown key st)))))
    \<and> InputFrame action \<notin> set (drop (length (sent ((tick ^^ n) (keyup key' ((tick ^^ m) (keydown key st))))))
                                     (sent ((tick ^^ Suc n) (keyup key' ((tick ^^ m) (keydown key st))))))"
proof
  let ?s = "(tick ^^ n) (keydown key st)"
  have kd: "pressedKeys (keydown key st) = insert (toLowerCase key) (pressedKeys st)"
    "playerId (keydown key st) = playerId st" "connected_flag (keydown key st) = connected_flag st"
    "ws (keydown key st) = ws st"
    by (simp_all add: keydown_def)
  show "ws st \<noteq> None \<and> connected_flag st \<longrightarrow>
           InputFrame action \<in> set (drop (length (sent ?s)) (sent ((tick ^^ Suc n) (keydown key st))))"
  proof
    assume "ws st \<noteq> None \<and> connected_flag st"
    with ticks_keep[of n "keydown key st"] kd
    have s: "ws ?s \<noteq> None" "connected_flag ?s" "toLowerCase k \<in> pressedKeys ?s"
      "playerId ?s = playerId st"
      using assms(2) by simp_all
    have ac: "active_controls ?s = active_controls st" using s(4) by (simp add: active_controls_def)
    have "drop (length (sent ?s)) (sent ((tick ^^ Suc n) (keydown key st))) = spec_tick_frames ?s"
      using s(1,2) by (simp add: tick_frames)
    moreover have "InputFrame action \<in> set (spec_tick_frames ?s)"
      using frame_needs_key[of k action ?s] assms(1) s(3) by (simp add: ac)
    ultimately show "InputFrame action \<in> set (drop (length (sent ?s)) (sent ((tick ^^ Suc n) (keydown key st))))"
      by simp
  qed
  let ?u = "keyup key' ((tick ^^ m) (keydown key st))"
  let ?t = "(tick ^^ n) ?u"
  have ku: "pressedKeys ?u = pressedKeys ((tick ^^ m) (keydown key st)) - {toLowerCase key'}"
    "playerId ?u = playerId ((tick ^^ m) (keydown key st))"
    by (simp_all add: keyup_def)
  from ticks_keep[of n ?u] ticks_keep[of m "keydown key st"] ku kd
  have t: "toLowerCase k \<notin> pressedKeys ?t" "playerId ?t = playerId st"
    using assms(3) by simp_all
  have ac: "active_controls ?t = active_controls st" using t(2) by (simp add: active_controls_def)
  have no: "InputFrame action \<notin> set (spec_tick_frames ?t)"
    using frame_needs_key[of k action ?t] assms(1) t(1) by (simp add: ac)
  have "drop (length (sent ?t)) (sent ((tick ^^ Suc n) ?u))
      = (if ws ?t \<noteq> None \<and> connected_flag ?t then spec_tick_frames ?t else [])"
    by (simp add: tick_frames)
  then show "InputFrame action \<notin> set (drop (length (sent ?t)) (sent ((tick ^^ Suc n) ?u)))"
    using no by (simp split: if_splits)
qed

theorem held_key_matches_in_any_case_witness:
  "(''ArrowUp'', ''UP'') \<in> set [(UP (active_controls (opened ''player2'')), ''UP''),
      (DOWN (active_controls (opened ''player2'')), ''DOWN''),
      (LEFT (active_controls (opened ''player2'')), ''LEFT''),
      (RIGHT (active_controls (opened ''player2'')), ''RIGHT'')]
   \<and> toLowerCase ''ARROWUP'' = toLowerCase ''ArrowUp''
   \<and> toLowerCase ''arrowUP'' = toLowerCase ''ArrowUp''
   \<and> ws (opened ''player2'') \<noteq> None \<and> connected_flag (opened ''player2'')
   \<and> InputFrame ''UP'' \<in> set (drop (length (sent ((tick ^^ 2) (keydown ''ARROWUP'' (opened ''player2'')))))
                                     (sent ((tick ^^ Suc 2) (keydown ''ARROWUP'' (opened ''player2'')))))
   \<and> InputFrame ''UP'' \<notin> set
        (drop (length (sent ((tick ^^ 1) (keyup ''arrowUP'' ((tick ^^ 3) (keydown ''ARROWUP'' (opened ''player2'')))))))
              (sent ((tick ^^ Suc 1) (keyup ''arrowUP'' ((tick ^^ 3) (keydown ''ARROWUP'' (opened ''player2'')))))))"
proof -
  have l3: "toLowerCase ''arrowUP'' = ''arrowup''" by (simp add: toLowerCase_def lower_char_def)
  have h: "ws (opened ''player2'') \<noteq> None" "connected_flag (opened ''player2'')"
    "UP (active_controls (opened ''player2'')) = ''ArrowUp''"
    "toLowerCase ''ARROWUP'' = toLowerCase ''ArrowUp''"
    "toLowerCase ''arrowUP'' = toLowerCase ''ArrowUp''"
    by (simp_all add: opened_eq active_controls_def PLAYER2_def player2_lower l3)
  have m: "(''ArrowUp'', ''UP'') \<in> set [(UP (active_controls (opened ''player2'')), ''UP''),
      (DOWN (active_controls (opened ''player2'')), ''DOWN''),
      (LEFT (active_controls (opened ''player2'')), ''LEFT''),
      (RIGHT (active_controls (opened ''player2'')), ''RIGHT'')]"
    using h(3) by simp
  from held_key_matches_in_any_case[OF m h(4) h(5), where n = 2 and m = 3]
    held_key_matches_in_any_case[OF m h(4) h(5), where n = 1 and m = 3] h m
  show ?thesis by blast
qed

section \<open>The Render Loop\<close>

lemma quarter_800: "jsdiv (Fin 800) (Fin 4) = Fin 200"
  using fl_eq[of 7 "800 / 4" "200 * 2 ^ 45" False] by (simp add: jsdiv_def)

lemma three_quarters_800: "jsmul (Fin 200) (Fin 3) = Fin 600"
  using fl_eq[of 9 "200 * 3" "600 * 2 ^ 43" False] by (simp add: jsmul_def)

lemma half_800: "jsdiv (Fin 800) (Fin 2) = Fin 400"
  using fl_eq[of 8 "800 / 2" "400 * 2 ^ 44" False] by (simp add: jsdiv_def)

lemma half_600: "jsdiv (Fin 600) (Fin 2) = Fin 300"
  using fl_eq[of 8 "600 / 2" "300 * 2 ^ 44" False] by (simp add: jsdiv_def)

lemma score_texts: "whole_number_text (Fin 3) = ''3''" "whole_number_text (Fin 5) = ''5''"
  by (simp_all add: whole_number_text_def decimal.simps[of 3] decimal.simps[of 5])

text \<open>
  Claim C7, as stated, fails on a snapshot without paddles, and on one whose ball has a
  negative radius. The handler stores the data of a \<open>game_state\<close> message as it comes;
  after the message \<open>{type: 'game_state', data: {}}\<close> the stored snapshot is \<open>{}\<close>, which
  is truthy, so the render goes on to \<open>drawPaddle(undefined)\<close>, whose read of \<open>paddle.x\<close>
  raises a TypeError. With a complete snapshot whose ball has the radius \<open>-8\<close> the call of
  \<open>ctx.arc\<close> raises an IndexSizeError. In both cases \<open>animate\<close> does not reach its
  \<open>requestAnimationFrame\<close>.
\<close>

theorem render_of_a_snapshot_without_paddles_raises:
  "raised (onmessage (page 1000 500) (Some (game_state_message (JObject []))) (opened ''player1'')) = None
   \<and> truthy (gameState (final_state
        (onmessage (page 1000 500) (Some (game_state_message (JObject []))) (opened ''player1''))))
   \<and> render (page 1000 500) (final_state
        (onmessage (page 1000 500) (Some (game_state_message (JObject []))) (opened ''player1'')))
      = Inl TypeError
   \<and> render (page 1000 500) ((opened ''player1'')\<lparr>gameState := snapshot_with_radius (- 8)\<rparr>)
      = Inl IndexSizeError"
  by (simp add: onmessage_def sync_dimensions_def eval_in_def game_state_message_def property_def
      raised_def final_state_def render_def drawPaddle_def drawBall_def fillRect_def arc_def
      ToNumber_def and_then_def snapshot_with_radius_def)

text \<open>
  Claim C7, amended. A render with no snapshot stored clears the canvas and paints the
  waiting text, and nothing else. A render with a snapshot stored whose \<open>paddle1\<close>,
  \<open>paddle2\<close> and \<open>ball\<close> are objects with numbers as their \<open>x\<close>, \<open>y\<close>, \<open>width\<close>, \<open>height\<close>
  and \<open>radius\<close>, the radius not negative, and whose two scores are numbers, does not
  raise and paints the background, the centre line, the two paddles, the ball and the two
  scores, each with the numbers of the snapshot as they are (the scores as the runtime
  writes them); the scale factors have no part in it.
\<close>

theorem render_paints_the_snapshot_unscaled:
  "(\<not> truthy (gameState st) \<longrightarrow>
      render e st =
        Inr [FillStyle COLORS_BACKGROUND,
             FillRect (Fin 0) (Fin 0) (canvas_width st) (canvas_height st),
             FillStyle COLORS_TEXT, Font ''24px Arial'', TextAlign ''center'',
             FillText ''Waiting for game state...''
               (jsdiv (canvas_width st) (Fin 2)) (jsdiv (canvas_height st) (Fin 2))])
   \<and> (gameState st = JObject d
        \<and> map_of d ''paddle1'' = Some (JObject p1)
        \<and> map_of p1 ''x'' = Some (JNum x1) \<and> map_of p1 ''y'' = Some (JNum y1)
        \<and> map_of p1 ''width'' = Some (JNum w1) \<and> map_of p1 ''height'' = Some (JNum h1)
        \<and> map_of d ''paddle2'' = Some (JObject p2)
        \<and> map_of p2 ''x'' = Some (JNum x2) \<and> map_of p2 ''y'' = Some (JNum y2)
        \<and> map_of p2 ''width'' = Some (JNum w2) \<and> map_of p2 ''height'' = Some (JNum h2)
        \<and> map_of d ''ball'' = Some (JObject b)
        \<and> map_of b ''x'' = Some (JNum xb) \<and> map_of b ''y'' = Some (JNum yb)
        \<and> map_of b ''radius'' = Some (JNum rb) \<and> 0 \<le> val rb
        \<and> map_of d ''score1'' = Some (JNum s1) \<and> map_of d ''score2'' = Some (JNum s2)
      \<longrightarrow>
        render e st =
          Inr [FillStyle COLORS_BACKGROUND,
               FillRect (Fin 0) (Fin 0) (canvas_width st) (canvas_height st),
               StrokeStyle COLORS_BOUNDARY, LineWidth 2, SetLineDash [10, 10], BeginPath,
               MoveTo (jsdiv (canvas_width st) (Fin 2)) (Fin 0),
               LineTo (jsdiv (canvas_width st) (Fin 2)) (canvas_height st),
               Stroke, SetLineDash [],
               FillStyle PADDLE_COLOR, FillRect x1 y1 w1 h1,
               FillStyle PADDLE_COLOR, FillRect x2 y2 w2 h2,
               FillStyle BALL_COLOR, BeginPath, Arc xb yb rb, Fill,
               FillStyle COLORS_TEXT, Font ''48px Arial'', TextAlign ''center'',
               FillText (NumberToString e s1) (jsdiv (canvas_width st) (Fin 4)) (Fin 60),
               FillText (NumberToString e s2) (jsmul (jsdiv (canvas_width st) (Fin 4)) (Fin 3)) (Fin 60)]
        \<and> render e (st\<lparr>scaleX := sx, scaleY := sy\<rparr>) = render e st)"
  by (simp add: render_def clear_canvas_def drawText_def drawCenterLine_def drawPaddle_def
      drawBall_def drawScores_def fillRect_def arc_def fillText_def ToNumber_def ToString_def
      and_then_def property_def)

theorem render_paints_the_snapshot_unscaled_witness:
  "\<not> truthy (gameState (opened ''player1''))
   \<and> render (page 1000 500) (opened ''player1'') =
        Inr [FillStyle ''#000000'', FillRect (Fin 0) (Fin 0) (Fin 800) (Fin 600),
             FillStyle ''#FFFFFF'', Font ''24px Arial'', TextAlign ''center'',
             FillText ''Waiting for game state...'' (Fin 400) (Fin 300)]
   \<and> render (page 1000 500) ((opened ''player1'')\<lparr>gameState := snapshot_with_radius 8\<rparr>) =
        Inr [FillStyle ''#000000'', FillRect (Fin 0) (Fin 0) (Fin 800) (Fin 600),
             StrokeStyle ''#444444'', LineWidth 2, SetLineDash [10, 10], BeginPath,
             MoveTo (Fin 400) (Fin 0), LineTo (Fin 400) (Fin 600), Stroke, SetLineDash [],
             FillStyle ''#FFFFFF'', FillRect (Fin 20) (Fin 250) (Fin 10) (Fin 100),
             FillStyle ''#FFFFFF'', FillRect (Fin 770) (Fin 250) (Fin 10) (Fin 100),
             FillStyle ''#FFFFFF'', BeginPath, Arc (Fin 400) (Fin 300) (Fin 8), Fill,
             FillStyle ''#FFFFFF'', Font ''48px Arial'', TextAlign ''center'',
             FillText ''3'' (Fin 200) (Fin 60), FillText ''5'' (Fin 600) (Fin 60)]
   \<and> render (page 1000 500)
        ((opened ''player1'')\<lparr>gameState := snapshot_with_radius 8, scaleX := Fin (1 / 2), scaleY := Fin 2\<rparr>)
      = render (page 1000 500) ((opened ''player1'')\<lparr>gameState := snapshot_with_radius 8\<rparr>)"
proof -
  let ?p1 = "[(''x'', JNum (Fin 20)), (''y'', JNum (Fin 250)),
              (''width'', JNum (Fin 10)), (''height'', JNum (Fin 100))]"
  let ?p2 = "[(''x'', JNum (Fin 770)), (''y'', JNum (Fin 250)),
              (''width'', JNum (Fin 10)), (''height'', JNum (Fin 100))]"
  let ?b = "[(''x'', JNum (Fin 400)), (''y'', JNum (Fin 300)), (''radius'', JNum (Fin 8))]"
  let ?d = "[(''paddle1'', JObject ?p1), (''paddle2'', JObject ?p2), (''ball'', JObject ?b),
        (''score1'', JNum (Fin 3)), (''score2'', JNum (Fin 5)),
        (''canvas_width'', JNum (Fin 800)), (''canvas_height'', JNum (Fin 600))]"
  let ?st = "(opened ''player1'')\<lparr>gameState := snapshot_with_radius 8\<rparr>"
  have n: "\<not> truthy (gameState (opened ''player1''))" by (simp add: opened_eq)
  have h: "gameState ?st = JObject ?d
        \<and> map_of ?d ''paddle1'' = Some (JObject ?p1)
        \<and> map_of ?p1 ''x'' = Some (JNum (Fin 20)) \<and> map_of ?p1 ''y'' = Some (JNum (Fin 250))
        \<and> map_of ?p1 ''width'' = Some (JNum (Fin 10)) \<and> map_of ?p1 ''height'' = Some (JNum (Fin 100))
        \<and> map_of ?d ''paddle2'' = Some (JObject ?p2)
        \<and> map_of ?p2 ''x'' = Some (JNum (Fin 770)) \<and> map_of ?p2 ''y'' = Some (JNum (Fin 250))
        \<and> map_of ?p2 ''width'' = Some (JNum (Fin 10)) \<and> map_of ?p2 ''height'' = Some (JNum (Fin 100))
        \<and> map_of ?d ''ball'' = Some (JObject ?b)
        \<and> map_of ?b ''x'' = Some (JNum (Fin 400)) \<and> map_of ?b ''y'' = Some (JNum (Fin 300))
        \<and> map_of ?b ''radius'' = Some (JNum (Fin 8)) \<and> 0 \<le> val (Fin 8)
        \<and> map_of ?d ''score1'' = Some (JNum (Fin 3)) \<and> map_of ?d ''score2'' = Some (JNum (Fin 5))"
    by (simp add: snapshot_with_radius_def)
  have c: "canvas_width ?st = Fin 800" "canvas_height ?st = Fin 600"
    "canvas_width (opened ''player1'') = Fin 800" "canvas_height (opened ''player1'') = Fin 600"
    by (simp_all add: opened_eq)
  have t: "NumberToString (page 1000 500) (Fin 3) = ''3''" "NumberToString (page 1000 500) (Fin 5) = ''5''"
    by (simp_all add: page_def score_texts)
  note A = render_paints_the_snapshot_unscaled[where st = "opened ''player1''" and e = "page 1000 500",
      THEN conjunct1, rule_format, OF n]
  note B = render_paints_the_snapshot_unscaled[where st = ?st and e = "page 1000 500"
      and sx = "Fin (1 / 2)" and sy = "Fin 2", THEN conjunct2, rule_format, OF h]
  have "render (page 1000 500) (opened ''player1'') =
        Inr [FillStyle ''#000000'', FillRect (Fin 0) (Fin 0) (Fin 800) (Fin 600),
             FillStyle ''#FFFFFF'', Font ''24px Arial'', TextAlign ''center'',
             FillText ''Waiting for game state...'' (Fin 400) (Fin 300)]"
    using A by (simp add: c half_800 half_600 COLORS_BACKGROUND_def COLORS_TEXT_def)
  moreover have "render (page 1000 500) ?st =
        Inr [FillStyle ''#000000'', FillRect (Fin 0) (Fin 0) (Fin 800) (Fin 600),
             StrokeStyle ''#444444'', LineWidth 2, SetLineDash [10, 10], BeginPath,
             MoveTo (Fin 400) (Fin 0), LineTo (Fin 400) (Fin 600), Stroke, SetLineDash [],
             FillStyle ''#FFFFFF'', FillRect (Fin 20) (Fin 250) (Fin 10) (Fin 100),
             FillStyle ''#FFFFFF'', FillRect (Fin 770) (Fin 250) (Fin 10) (Fin 100),
             FillStyle ''#FFFFFF'', BeginPath, Arc (Fin 400) (Fin 300) (Fin 8), Fill,
             FillStyle ''#FFFFFF'', Font ''48px Arial'', TextAlign ''center'',
             FillText ''3'' (Fin 200) (Fin 60), FillText ''5'' (Fin 600) (Fin 60)]"
    using B[THEN conjunct1]
    by (simp add: c t half_800 quarter_800 three_quarters_800 COLORS_BACKGROUND_def
        COLORS_TEXT_def COLORS_BOUNDARY_def PADDLE_COLOR_def BALL_COLOR_def)
  moreover have "render (page 1000 500)
        ((opened ''player1'')\<lparr>gameState := snapshot_with_radius 8, scaleX := Fin (1 / 2), scaleY := Fin 2\<rparr>)
      = render (page 1000 500) ?st"
    using B[THEN conjunct2] by simp
  ultimately show ?thesis using n by blast
qed

section \<open>The aspect ratio of the display box\<close>

lemma aspect_200_100: "jsdiv (Fin 200) (Fin 100) = Fin 2"
  using fl_eq[of 1 "200 / 100" "2 ^ 52" False] by (simp add: jsdiv_def)

lemma width_100:
  "jsmul (Fin 100) (Fin (6004799503160661 / 4503599627370496)) = Fin (2345624805922133 / 17592186044416)"
  using fl_eq[of 7 "100 * (6004799503160661 / 4503599627370496)" 4691249611844266 False]
  by (simp add: jsmul_def)

lemma ratio_100:
  "jsdiv (Fin (2345624805922133 / 17592186044416)) (Fin 100) = Fin (1501199875790165 / 1125899906842624)"
  using fl_eq[of 0 "(2345624805922133 / 17592186044416) / 100" 6004799503160660 False]
  by (simp add: jsdiv_def)

lemma box_200_100:
  "spec_display_box (Fin 200) (Fin 100) (Fin 800) (Fin 600) = (Fin (2345624805922133 / 17592186044416), Fin 100)"
  by (simp add: spec_display_box_def aspect_800_600 aspect_200_100 width_100 jsgt_def)

text \<open>
  Claim C1, as stated, fails: the ratio is kept only up to rounding. After the snapshot
  800 by 600 the window is resized to 200 by 100. \<open>handleResize\<close> fits to height:
  the box is 100 high and \<open>100 * (800 / 600)\<close> wide, the double
  \<open>133.33333333333331\<close>. Its width over its height is not \<open>800 / 600\<close>, neither as
  JavaScript computes the two quotients (\<open>1.333333333333333\<close> against \<open>1.3333333333333333\<close>)
  nor exactly.
\<close>

theorem resized_box_is_not_exactly_in_ratio:
  "raised (handleResize (page 200 100) (final_state
      (onmessage (page 1000 500) (Some (game_state_message (dimensions 800 600))) (opened ''player1''))))
     = None
   \<and> style_width (final_state (handleResize (page 200 100) (final_state
      (onmessage (page 1000 500) (Some (game_state_message (dimensions 800 600))) (opened ''player1'')))))
     = Some (Fin (2345624805922133 / 17592186044416))
   \<and> style_height (final_state (handleResize (page 200 100) (final_state
      (onmessage (page 1000 500) (Some (game_state_message (dimensions 800 600))) (opened ''player1'')))))
     = Some (Fin 100)
   \<and> jsdiv (Fin (2345624805922133 / 17592186044416)) (Fin 100) \<noteq> jsdiv (Fin 800) (Fin 600)
   \<and> (2345624805922133 / 17592186044416) / 100 \<noteq> (800 / 600 :: rat)"
proof -
  let ?s = "final_state
      (onmessage (page 1000 500) (Some (game_state_message (dimensions 800 600))) (opened ''player1''))"
  have "handleResize (page 200 100) ?s =
    (let (dw, dh) = spec_display_box (clientWidth (page 200 100)) (clientHeight (page 200 100))
                      (Fin 800) (Fin 600) in
     Inr (console_log (LogScaleFactor (jsdiv dw (Fin 800)))
           (console_log (LogDisplaySize dw dh)
             (console_log (LogGameWorld (JNum (Fin 800)) (JNum (Fin 600)))
               (console_log (LogText ''Responsive scaling applied:'')
                 (?s\<lparr>style_width := Some dw, style_height := Some dh,
                      scaleX := jsdiv dw (Fin 800), scaleY := jsdiv dh (Fin 600)\<rparr>))))))"
    by (rule handleResize_numbers[OF after_first_snapshot(1) _ _ after_first_snapshot(2)]) simp_all
  then have "raised (handleResize (page 200 100) ?s) = None"
    "style_width (final_state (handleResize (page 200 100) ?s)) = Some (Fin (2345624805922133 / 17592186044416))"
    "style_height (final_state (handleResize (page 200 100) ?s)) = Some (Fin 100)"
    by (simp_all add: page_def box_200_100 raised_def final_state_def console_log_def)
  moreover have "jsdiv (Fin (2345624805922133 / 17592186044416)) (Fin 100) \<noteq> jsdiv (Fin 800) (Fin 600)"
    by (simp add: ratio_100 aspect_800_600)
  moreover have "(2345624805922133 / 17592186044416) / 100 \<noteq> (800 / 600 :: rat)" by simp
  ultimately show ?thesis by blast
qed

text \<open>
  Claim C1, amended. After a run of \<open>handleResize\<close> on a snapshot whose \<open>canvas_width\<close>
  and \<open>canvas_height\<close> are numbers between \<open>2^-256\<close> and \<open>2^256\<close>, in a container whose
  width and height are in the same range, the display box has positive sides and keeps
  the aspect ratio within floating-point tolerance: the width over the height differs
  from \<open>canvas_width / canvas_height\<close> by at most \<open>2^-51\<close> of it. The scale factors
  stored are the doubles \<open>displayWidth / canvas_width\<close> and
  \<open>displayHeight / canvas_height\<close>.
\<close>

theorem display_box_keeps_the_aspect_ratio:
  assumes "gameState st = JObject d"
    and "map_of d ''canvas_width'' = Some (JNum (Fin a))"
    and "map_of d ''canvas_height'' = Some (JNum (Fin b))"
    and "initialDimensionsSet st"
    and "clientWidth e = Fin W" and "clientHeight e = Fin H"
    and "moderate a" and "moderate b" and "moderate W" and "moderate H"
  shows "raised (handleResize e st) = None
    \<and> (\<exists>dw dh. style_width (final_state (handleResize e st)) = Some (Fin dw)
          \<and> style_height (final_state (handleResize e st)) = Some (Fin dh)
          \<and> 0 < dw \<and> 0 < dh
          \<and> \<bar>dw / dh - a / b\<bar> \<le> (a / b) * 2 powi (- 51)
          \<and> scaleX (final_state (handleResize e st)) = jsdiv (Fin dw) (Fin a)
          \<and> scaleY (final_state (handleResize e st)) = jsdiv (Fin dh) (Fin b))"
proof -
  from box_aspect[OF assms(7-10)] obtain dw dh where
    box: "spec_display_box (Fin W) (Fin H) (Fin a) (Fin b) = (Fin dw, Fin dh)"
    and ok: "0 < dw" "0 < dh" "\<bar>dw / dh - a / b\<bar> \<le> (a / b) * 2 powi (- 51)"
    by blast
  have run: "handleResize e st =
      Inr (console_log (LogScaleFactor (jsdiv (Fin dw) (Fin a)))
           (console_log (LogDisplaySize (Fin dw) (Fin dh))
             (console_log (LogGameWorld (JNum (Fin a)) (JNum (Fin b)))
               (console_log (LogText ''Responsive scaling applied:'')
                 (st\<lparr>style_width := Some (Fin dw), style_height := Some (Fin dh),
                      scaleX := jsdiv (Fin dw) (Fin a), scaleY := jsdiv (Fin dh) (Fin b)\<rparr>)))))"
    using handleResize_numbers[OF assms(1-4), of e] by (simp add: assms(5,6) box)
  show ?thesis
    unfolding run using ok by (simp add: raised_def final_state_def console_log_def)
qed

theorem display_box_keeps_the_aspect_ratio_witness:
  "moderate 800 \<and> moderate 600 \<and> moderate 200 \<and> moderate 100
   \<and> style_width (final_state (handleResize (page 200 100) (final_state
        (onmessage (page 1000 500) (Some (game_state_message (dimensions 800 600))) (opened ''player1'')))))
      = Some (Fin (2345624805922133 / 17592186044416))
   \<and> style_height (final_state (handleResize (page 200 100) (final_state
        (onmessage (page 1000 500) (Some (game_state_message (dimensions 800 600))) (opened ''player1'')))))
      = Some (Fin 100)
   \<and> \<bar>(2345624805922133 / 17592186044416) / 100 - 800 / 600\<bar> \<le> (800 / 600) * (2 powi (- 51) :: rat)"
proof -
  let ?s = "final_state
      (onmessage (page 1000 500) (Some (game_state_message (dimensions 800 600))) (opened ''player1''))"
  let ?d = "[(''canvas_width'', JNum (Fin 800)), (''canvas_height'', JNum (Fin 600))]"
  have m: "moderate 800" "moderate 600" "moderate 200" "moderate 100"
    by (simp_all add: moderate_def)
  have c: "clientWidth (page 200 100) = Fin 200" "clientHeight (page 200 100) = Fin 100"
    by (simp_all add: page_def)
  have k: "map_of ?d ''canvas_width'' = Some (JNum (Fin 800))"
    "map_of ?d ''canvas_height'' = Some (JNum (Fin 600))"
    by simp_all
  from display_box_keeps_the_aspect_ratio[OF after_first_snapshot(1) k after_first_snapshot(2) c m]
  obtain dw dh where
    w: "style_width (final_state (handleResize (page 200 100) ?s)) = Some (Fin dw)"
    and h: "style_height (final_state (handleResize (page 200 100) ?s)) = Some (Fin dh)"
    and r: "\<bar>dw / dh - 800 / 600\<bar> \<le> (800 / 600) * 2 powi (- 51)"
    by blast
  have "handleResize (page 200 100) ?s =
    (let (dw, dh) = spec_display_box (clientWidth (page 200 100)) (clientHeight (page 200 100))
                      (Fin 800) (Fin 600) in
     Inr (console_log (LogScaleFactor (jsdiv dw (Fin 800)))
           (console_log (LogDisplaySize dw dh)
             (console_log (LogGameWorld (JNum (Fin 800)) (JNum (Fin 600)))
               (console_log (LogText ''Responsive scaling applied:'')
                 (?s\<lparr>style_width := Some dw, style_height := Some dh,
                      scaleX := jsdiv dw (Fin 800), scaleY := jsdiv dh (Fin 600)\<rparr>))))))"
    by (rule handleResize_numbers[OF after_first_snapshot(1) k after_first_snapshot(2)])
  then have v: "style_width (final_state (handleResize (page 200 100) ?s)) = Some (Fin (2345624805922133 / 17592186044416))"
    "style_height (final_state (handleResize (page 200 100) ?s)) = Some (Fin 100)"
    by (simp_all add: c box_200_100 final_state_def console_log_def)
  have "dw = 2345624805922133 / 17592186044416" "dh = 100" using w h v by simp_all
  then have "\<bar>(2345624805922133 / 17592186044416) / 100 - 800 / 600\<bar> \<le> (800 / 600) * (2 powi (- 51) :: rat)"
    using r by (simp only:)
  then show ?thesis using m v by blast
qed


end
